theory Spec2Isabelle
  imports Main "HOL-Library.Word"
begin

section \<open>Paths and strings\<close>

text \<open>
  A \<^verbatim>\<open>pathlib.Path\<close> (on POSIX) is the sequence of its parts: for an absolute path the
  root (\<^verbatim>\<open>/\<close>, or \<^verbatim>\<open>//\<close> when the string starts with exactly two slashes) and then the
  components, for a relative one the components only.  \<open>Path s\<close> parses a string as
  pathlib does: it splits at \<^verbatim>\<open>/\<close> and drops empty and \<^verbatim>\<open>.\<close> components.  The
  source's \<^verbatim>\<open>p / n\<close> is \<open>joinpath p n\<close>; an absolute \<open>n\<close> replaces \<open>p\<close>.
\<close>

type_synonym path = "string list"

fun split_on :: "char \<Rightarrow> string \<Rightarrow> string list" where
  "split_on c [] = [[]]"
| "split_on c (x # xs) =
     (if x = c then [] # split_on c xs
      else (case split_on c xs of
              [] \<Rightarrow> [[x]]
            | s # ss \<Rightarrow> (x # s) # ss))"

definition path_root :: "string \<Rightarrow> string" where
  "path_root s =
     (if take 2 s = ''//'' \<and> take 3 s \<noteq> ''///'' then ''//''
      else if take 1 s = ''/'' then ''/''
      else [])"

definition is_root :: "string \<Rightarrow> bool" where
  "is_root part = (part = ''/'' \<or> part = ''//'')"

definition Path :: "string \<Rightarrow> path" where
  "Path s =
     (if path_root s = [] then [] else [path_root s])
       @ filter (\<lambda>part. part \<noteq> [] \<and> part \<noteq> ''.'') (split_on (CHR ''/'') s)"

definition joinpath :: "path \<Rightarrow> string \<Rightarrow> path" where
  "joinpath p n = (if path_root n = [] then p @ Path n else Path n)"

fun join_with :: "string \<Rightarrow> string list \<Rightarrow> string" where
  "join_with sep [] = []"
| "join_with sep [s] = s"
| "join_with sep (s # t # ss) = s @ sep @ join_with sep (t # ss)"

definition path_str :: "path \<Rightarrow> string" where
  "path_str p =
     (case p of
        [] \<Rightarrow> ''.''
      | r # rest \<Rightarrow> if is_root r then r @ join_with ''/'' rest else join_with ''/'' p)"

text \<open>The name of a path that is only a root is empty, and such a path is its own parent.\<close>

definition path_name :: "path \<Rightarrow> string" where
  "path_name p = (if p = [] \<or> is_root (last p) then [] else last p)"

definition path_parent :: "path \<Rightarrow> path" where
  "path_parent p = (if length p = 1 \<and> is_root (hd p) then p else butlast p)"

definition quoted :: "string \<Rightarrow> string" where
  "quoted s = [CHR 0x27] @ s @ [CHR 0x27]"

text \<open>\<^verbatim>\<open>str.rfind\<close>: the index of the last occurrence, or \<open>-1\<close>.\<close>

fun rfind_from :: "char \<Rightarrow> string \<Rightarrow> int \<Rightarrow> int \<Rightarrow> int" where
  "rfind_from c [] i found = found"
| "rfind_from c (x # xs) i found = rfind_from c xs (i + 1) (if x = c then i else found)"

definition rfind :: "string \<Rightarrow> char \<Rightarrow> int" where
  "rfind s c = rfind_from c s 0 (-1)"

text \<open>
  \<^verbatim>\<open>PurePath.stem\<close>: the final component without its last suffix; a leading or a
  trailing dot starts no suffix.
\<close>

definition path_stem :: "path \<Rightarrow> string" where
  "path_stem p =
     (let name = path_name p; i = rfind name (CHR ''.'')
      in if 0 < i \<and> i < int (length name) - 1 then take (nat i) name else name)"

text \<open>The decimal rendering of a non-negative integer, as an f-string prints it.\<close>

definition digit_char :: "nat \<Rightarrow> char" where
  "digit_char d = char_of (48 + d)"

fun str_nat :: "nat \<Rightarrow> string" where
  "str_nat n = (if n < 10 then [digit_char n] else str_nat (n div 10) @ [digit_char (n mod 10)])"

declare str_nat.simps [simp del]

definition str_int :: "int \<Rightarrow> string" where
  "str_int i = (if i < 0 then CHR ''-'' # str_nat (nat (- i)) else str_nat (nat i))"

text \<open>
  \<^verbatim>\<open>random.randint(a, b)\<close> draws from the inclusive range \<open>[a, b]\<close>; the draw is
  a function of the entropy the generator consumes.
\<close>

definition randint :: "int \<Rightarrow> int \<Rightarrow> nat \<Rightarrow> int" where
  "randint a b entropy = a + int (entropy mod nat (b - a + 1))"

section \<open>The local ingestion pipeline (JewelryDatasetManager)\<close>

record pil_image =
  img_mode :: string
  img_size :: "nat \<times> nat"

record image_record =
  original_path :: string
  processed_path :: string
  category :: string
  dimensions :: "nat \<times> nat"
  s3_key :: string

record product_record =
  url :: string
  title :: string
  price :: string
  image_filename :: string

text \<open>
  A subscript \<^verbatim>\<open>v[k]\<close>: a string key or a non-negative index.
\<close>

datatype subscript = Key string | Index nat

text \<open>
  A Python exception, by class, with its argument: for \<open>KeyError\<close> the missing key,
  otherwise the message.  \<open>exn_str\<close> is \<^verbatim>\<open>str(e)\<close>; for a \<open>KeyError\<close> it is the
  \<^verbatim>\<open>repr\<close> of the key (a string key in quotes; the keys here have no quote and no
  escape inside).
\<close>

datatype exn =
    KeyError subscript
  | IndexError string
  | TypeError string
  | AttributeError string
  | ValueError string
  | OSError string
  | FileExistsError string
  | FileNotFoundError string
  | IsADirectoryError string
  | NotADirectoryError string
  | ClientError string

fun exn_str :: "exn \<Rightarrow> string" where
  "exn_str (KeyError (Key k)) = quoted k"
| "exn_str (KeyError (Index i)) = str_nat i"
| "exn_str (IndexError m) = m"
| "exn_str (TypeError m) = m"
| "exn_str (AttributeError m) = m"
| "exn_str (ValueError m) = m"
| "exn_str (OSError m) = m"
| "exn_str (FileExistsError m) = m"
| "exn_str (FileNotFoundError m) = m"
| "exn_str (IsADirectoryError m) = m"
| "exn_str (NotADirectoryError m) = m"
| "exn_str (ClientError m) = m"

text \<open>
  A line of the log: \<open>ERROR msg e\<close> is \<^verbatim>\<open>logger.error(f"{msg}{str(e)}")\<close>.
\<close>

datatype log_line = INFO string | ERROR string exn

text \<open>
  What a file holds.  \<open>Jpeg img\<close> is \<open>img\<close> encoded as JPEG at quality 95,
  \<open>MetadataJson rs\<close> is \<^verbatim>\<open>json.dump(rs, f, indent=2)\<close> of a list of image
  records (the empty list is the text \<^verbatim>\<open>[]\<close>), \<open>ResultsJson\<close> and
  \<open>ResultsCsv\<close> are the two dumps of a list of product records, and
  \<open>RawBytes\<close> is downloaded data written as it came.
\<close>

datatype content =
    Jpeg pil_image
  | MetadataJson "image_record list"
  | ResultsJson "product_record list"
  | ResultsCsv "product_record list"
  | RawBytes string

text \<open>
  The state the two classes act on: the regular files, the directories, the objects of the
  blob store (by bucket and key) and the log.
\<close>

record world =
  files :: "path \<rightharpoonup> content"
  dirs :: "path \<Rightarrow> bool"
  s3_objects :: "string \<times> string \<rightharpoonup> content"
  log :: "log_line list"

definition log_info :: "string \<Rightarrow> world \<Rightarrow> world" where
  "log_info msg w = w\<lparr>log := log w @ [INFO msg]\<rparr>"

definition log_error :: "string \<Rightarrow> exn \<Rightarrow> world \<Rightarrow> world" where
  "log_error msg e w = w\<lparr>log := log w @ [ERROR msg e]\<rparr>"

definition write_file :: "path \<Rightarrow> content \<Rightarrow> world \<Rightarrow> world" where
  "write_file p c w = w\<lparr>files := (files w)(p \<mapsto> c)\<rparr>"

record dataset_config =
  input_dir :: string
  output_dir :: string
  aws_bucket :: string
  min_image_size :: int
  max_images_per_category :: int
  user_agents :: "string list"

definition default_dataset_config :: dataset_config where
  "default_dataset_config =
     \<lparr>input_dir = ''raw_data'',
      output_dir = ''processed_datasets'',
      aws_bucket = ''jewelry-images-input-bucket'',
      min_image_size = 512,
      max_images_per_category = 1000,
      user_agents =
        [''Mozilla/5.0 (Windows NT 10.0; Win64; x64) AppleWebKit/537.36'',
         ''Mozilla/5.0 (Macintosh; Intel Mac OS X 10_15_7) AppleWebKit/537.36'']\<rparr>"

text \<open>
  What the outside world answers to the calls of the pipeline.
  \<^item> \<open>image_open p\<close>: the decoded image of the file at \<open>p\<close>, or the exception Pillow
    raises on it (at \<^verbatim>\<open>Image.open\<close> or at the deferred load of the pixel data).
  \<^item> \<open>save_raises p\<close>: the exception of \<^verbatim>\<open>img.save\<close> to \<open>p\<close>, if it raises.
  \<^item> \<open>upload_raises k\<close>: the exception of \<^verbatim>\<open>s3.upload_file\<close> for key \<open>k\<close>, if it raises.
  \<^item> \<open>entropy p\<close>: what the random generator consumes for the file at \<open>p\<close>.
  \<^item> \<open>iterdir p\<close>: the entries of the directory \<open>p\<close> that is read, or the exception of
    the listing (the directory is missing); \<open>is_dir\<close> and \<open>glob\<close> tell what is below.
  \<^item> \<open>mkdir_raises p\<close>, \<open>open_raises p\<close>: the exception with which the operating
    system refuses to make the directory \<open>p\<close>, or to open the file \<open>p\<close> for writing,
    for a reason the state does not show (the length of the name, the permissions, the
    space left).
  \<^item> \<open>finish_rank p\<close>: when the task of the file at \<open>p\<close> takes effect among the tasks
    of its thread pool.
\<close>

record local_env =
  image_open :: "path \<Rightarrow> exn + pil_image"
  save_raises :: "path \<Rightarrow> exn option"
  upload_raises :: "string \<Rightarrow> exn option"
  entropy :: "path \<Rightarrow> nat"
  iterdir :: "path \<Rightarrow> exn + path list"
  is_dir :: "path \<Rightarrow> bool"
  glob :: "path \<Rightarrow> string \<Rightarrow> path list"
  mkdir_raises :: "path \<Rightarrow> exn option"
  open_raises :: "path \<Rightarrow> exn option"
  finish_rank :: "path \<Rightarrow> nat"

definition upload_to_s3 ::
  "local_env \<Rightarrow> dataset_config \<Rightarrow> path \<Rightarrow> string \<Rightarrow> string \<Rightarrow> world \<Rightarrow> world" where
  "upload_to_s3 env cfg file_path cat filename w =
     (let key = cat @ ''/'' @ filename
      in case upload_raises env key of
           Some e \<Rightarrow> log_error (''S3 upload error for '' @ path_str file_path @ '': '') e w
         | None \<Rightarrow>
             (case files w file_path of
                None \<Rightarrow>
                  log_error (''S3 upload error for '' @ path_str file_path @ '': '')
                    (FileNotFoundError
                       (''[Errno 2] No such file or directory: '' @ quoted (path_str file_path))) w
              | Some c \<Rightarrow> w\<lparr>s3_objects := (s3_objects w)((aws_bucket cfg, key) \<mapsto> c)\<rparr>))"

text \<open>\<^verbatim>\<open>img.convert('RGB')\<close> changes the mode and keeps the size.\<close>

definition convert_rgb :: "pil_image \<Rightarrow> pil_image" where
  "convert_rgb img = (if img_mode img \<noteq> ''RGB'' then img\<lparr>img_mode := ''RGB''\<rparr> else img)"

definition output_name_of :: "local_env \<Rightarrow> path \<Rightarrow> string" where
  "output_name_of env image_path =
     path_stem image_path @ ''_'' @ str_int (randint 1000 9999 (entropy env image_path)) @ ''.jpg''"

text \<open>
  One image.  Whether \<^verbatim>\<open>img.save\<close> raises is the answer of the environment alone: it
  stands for every reason of a failed save.  Any exception is caught, logged and turned
  into \<^verbatim>\<open>None\<close>.
\<close>

definition process_single_image ::
  "local_env \<Rightarrow> dataset_config \<Rightarrow> path \<Rightarrow> path \<Rightarrow> world \<Rightarrow> image_record option \<times> world" where
  "process_single_image env cfg image_path out_dir w =
     (case image_open env image_path of
        Inl e \<Rightarrow> (None, log_error (''Error processing '' @ path_str image_path @ '': '') e w)
      | Inr img0 \<Rightarrow>
          if int (min (fst (img_size img0)) (snd (img_size img0))) < min_image_size cfg then (None, w)
          else
            let img = convert_rgb img0;
                output_name = output_name_of env image_path;
                output_path = joinpath out_dir output_name
            in (case save_raises env output_path of
                  Some e \<Rightarrow>
                    (None, log_error (''Error processing '' @ path_str image_path @ '': '') e w)
                | None \<Rightarrow>
                    let w1 = write_file output_path (Jpeg img) w;
                        w2 = upload_to_s3 env cfg output_path
                               (path_name (path_parent image_path)) output_name w1
                    in (Some \<lparr>original_path = path_str image_path,
                              processed_path = path_str output_path,
                              category = path_name (path_parent image_path),
                              dimensions = img_size img,
                              s3_key = path_name (path_parent image_path) @ ''/'' @ output_name\<rparr>,
                        w2)))"

definition metadata_file :: "dataset_config \<Rightarrow> string \<Rightarrow> path" where
  "metadata_file cfg cat = joinpath (Path (output_dir cfg)) (cat @ ''_metadata.json'')"




text \<open>
  The images of one category.  The source submits them to a thread pool, where they run
  in parallel, and collects the results in the order of submission.  Here the tasks take
  effect one whole task after the other, in the order of their \<open>finish_rank\<close> (tasks of
  the same rank in the order of submission): when two tasks write the same file, the file
  of the later one stays.  Interleavings inside a task are not modelled.
\<close>

fun run_tasks ::
  "local_env \<Rightarrow> dataset_config \<Rightarrow> path list \<Rightarrow> path \<Rightarrow> world
     \<Rightarrow> (path \<times> image_record option) list \<times> world" where
  "run_tasks env cfg [] out_dir w = ([], w)"
| "run_tasks env cfg (p # ps) out_dir w =
     (let (result, w1) = process_single_image env cfg p out_dir w;
          (finished, w2) = run_tasks env cfg ps out_dir w1
      in ((p, result) # finished, w2))"

definition process_images ::
  "local_env \<Rightarrow> dataset_config \<Rightarrow> path list \<Rightarrow> path \<Rightarrow> world \<Rightarrow> image_record list \<times> world" where
  "process_images env cfg image_paths' out_dir w =
     (let (finished, w1) = run_tasks env cfg (sort_key (finish_rank env) image_paths') out_dir w
      in (concat (map (\<lambda>p. case map_of finished p of
                                Some (Some result) \<Rightarrow> [result]
                              | _ \<Rightarrow> [])
                    image_paths'),
          w1))"

definition image_paths :: "local_env \<Rightarrow> path \<Rightarrow> path list" where
  "image_paths env category_dir = glob env category_dir ''**/*.jpg'' @ glob env category_dir ''**/*.png''"



text \<open>
  The state before anything is written: no file, the working directory and the roots, an
  empty blob store and an empty log.
\<close>

definition empty_world :: world where
  "empty_world =
     \<lparr>files = Map.empty, dirs = (\<lambda>p. p = [] \<or> p = [''/''] \<or> p = [''//'']),
      s3_objects = Map.empty, log = []\<rparr>"


section \<open>The bounded web scraper (JewelryWebScraper)\<close>

record selectors =
  sel_image :: string
  sel_title :: string
  sel_price :: string

record site =
  site_url :: string
  site_selectors :: selectors

text \<open>
  The configuration dictionary of the scraper.  Its defaults have no \<^verbatim>\<open>user_agents\<close>
  entry (only the dataset manager's defaults have one), so the entry is optional here:
  \<open>None\<close> is the missing key.
\<close>

record scraper_config =
  scrape_output_dir :: string
  delay_range :: "nat \<times> nat"
  max_retries :: nat
  concurrent_requests :: int
  target_sites :: "site list"
  scraper_user_agents :: "string list option"

definition default_scraper_config :: scraper_config where
  "default_scraper_config =
     \<lparr>scrape_output_dir = ''scraped_data'',
      delay_range = (1, 3),
      max_retries = 3,
      concurrent_requests = 5,
      target_sites =
        [\<lparr>site_url = ''https://example-jewelry-site.com'',
          site_selectors = \<lparr>sel_image = ''div.product-image img'',
                            sel_title = ''h1.product-title'',
                            sel_price = ''span.price''\<rparr>\<rparr>],
      scraper_user_agents = None\<rparr>"

text \<open>An element found by a selector: its attributes and its text.\<close>

record tag =
  tag_attrs :: "(string \<times> string) list"
  tag_text :: string

datatype http_outcome = Raises exn | Response int string

text \<open>
  \<^verbatim>\<open>get_product_urls\<close> is a stub in the source (its body is \<^verbatim>\<open>pass\<close>, so it returns
  \<^verbatim>\<open>None\<close>), to be supplied per site.  A discovery raises, returns \<^verbatim>\<open>None\<close> or
  returns the URLs.
\<close>

datatype discovery = DiscoveryRaises exn | DiscoveryNone | DiscoveredUrls "string list"

text \<open>
  What the outside world answers to the scraper.
  \<^item> \<open>get_product_urls u\<close>: the discovery for the site at \<open>u\<close>.
  \<^item> \<open>http_get u ua\<close>: \<^verbatim>\<open>session.get\<close> of \<open>u\<close> with the given User-Agent header (if any),
    with the status and the body read from the response; \<open>Raises\<close> when the request or the
    read of the body raises.
  \<^item> \<open>select_one html sel\<close>: \<^verbatim>\<open>BeautifulSoup(html, 'html.parser').select_one(sel)\<close>.
  \<^item> \<open>write_raises p\<close>: the exception of writing the file at \<open>p\<close>, if it raises.
  \<^item> \<open>choice_entropy u\<close>: what \<^verbatim>\<open>random.choice\<close> consumes in the task of \<open>u\<close>.
\<close>

record web_env =
  get_product_urls :: "string \<Rightarrow> discovery"
  http_get :: "string \<Rightarrow> string option \<Rightarrow> http_outcome"
  select_one :: "string \<Rightarrow> string \<Rightarrow> tag option"
  write_raises :: "path \<Rightarrow> exn option"
  choice_entropy :: "string \<Rightarrow> nat"

text \<open>\<^verbatim>\<open>str.strip()\<close>: the white space among the code points below 256.\<close>

definition is_space :: "char \<Rightarrow> bool" where
  "is_space c =
     (let n = (of_char c :: nat)
      in (9 \<le> n \<and> n \<le> 13) \<or> (28 \<le> n \<and> n \<le> 32) \<or> n = 133 \<or> n = 160)"

definition strip :: "string \<Rightarrow> string" where
  "strip s = rev (dropWhile is_space (rev (dropWhile is_space s)))"

definition download_image :: "web_env \<Rightarrow> string \<Rightarrow> world \<Rightarrow> string option \<times> world" where
  "download_image env image_url w =
     (case http_get env image_url None of
        Raises e \<Rightarrow> (None, log_error (''Error downloading image '' @ image_url @ '': '') e w)
      | Response status body \<Rightarrow> if status = 200 then (Some body, w) else (None, w))"

definition save_image :: "web_env \<Rightarrow> scraper_config \<Rightarrow> string \<Rightarrow> string \<Rightarrow> world \<Rightarrow> exn + world" where
  "save_image env cfg image_data filename w =
     (let out_dir = joinpath (Path (scrape_output_dir cfg)) ''images''
      in case write_raises env (joinpath out_dir filename) of
           Some e \<Rightarrow> Inl e
         | None \<Rightarrow> Inr (write_file (joinpath out_dir filename) (RawBytes image_data) w))"

text \<open>The exception of \<^verbatim>\<open>None.text\<close>.\<close>

definition none_has_no_text :: exn where
  "none_has_no_text =
     AttributeError (quoted ''NoneType'' @ '' object has no attribute '' @ quoted ''text'')"

text \<open>
  One task of the site's batch.  Every exception raised inside the task is caught by its
  \<^verbatim>\<open>except Exception\<close>, logged and turned into \<^verbatim>\<open>None\<close>; a status other than 200 and
  an image that was not downloaded fall off the end of the function, which is \<^verbatim>\<open>None\<close>
  too.  (The delay before the request takes time and changes nothing else.)
\<close>

definition scrape_product ::
  "web_env \<Rightarrow> scraper_config \<Rightarrow> string \<Rightarrow> selectors \<Rightarrow> world \<Rightarrow> product_record option \<times> world" where
  "scrape_product env cfg u sels w =
     (let failed = (\<lambda>e w'. (None, log_error (''Error scraping '' @ u @ '': '') e w'))
      in case scraper_user_agents cfg of
           None \<Rightarrow> failed (KeyError (Key ''user_agents'')) w
         | Some agents \<Rightarrow>
             if agents = [] then failed (IndexError ''Cannot choose from an empty sequence'') w
             else
               (case http_get env u (Some (agents ! (choice_entropy env u mod length agents))) of
                  Raises e \<Rightarrow> failed e w
                | Response status html \<Rightarrow>
                    if status = 200 then
                      (case select_one env html (sel_image sels) of
                         None \<Rightarrow> failed (TypeError (quoted ''NoneType'' @ '' object is not subscriptable'')) w
                       | Some image_tag \<Rightarrow>
                           (case map_of (tag_attrs image_tag) ''src'' of
                              None \<Rightarrow> failed (KeyError (Key ''src'')) w
                            | Some image_url \<Rightarrow>
                                (case select_one env html (sel_title sels) of
                                   None \<Rightarrow> failed none_has_no_text w
                                 | Some title_tag \<Rightarrow>
                                     (case select_one env html (sel_price sels) of
                                        None \<Rightarrow> failed none_has_no_text w
                                      | Some price_tag \<Rightarrow>
                                          (case download_image env image_url w of
                                             (None, w1) \<Rightarrow> (None, w1)
                                           | (Some image_data, w1) \<Rightarrow>
                                               if image_data = [] then (None, w1)
                                               else
                                                 let filename = last (split_on (CHR ''/'') u) @ ''.jpg''
                                                 in (case save_image env cfg image_data filename w1 of
                                                       Inl e \<Rightarrow> failed e w1
                                                     | Inr w2 \<Rightarrow>
                                                         (Some \<lparr>url = u,
                                                                 title = strip (tag_text title_tag),
                                                                 price = strip (tag_text price_tag),
                                                                 image_filename = filename\<rparr>,
                                                          w2)))))))
                    else (None, w)))"

text \<open>
  The two artifacts of a site.  Their names are fixed: the \<^verbatim>\<open>site_url\<close> argument is
  not used.  The result is the exception raised by a write, if any, with the state left
  behind (the JSON artifact is written before the CSV one).
\<close>

definition results_json_file :: "scraper_config \<Rightarrow> string \<Rightarrow> path" where
  "results_json_file cfg site_url' = joinpath (Path (scrape_output_dir cfg)) ''scrape_results.json''"

definition results_csv_file :: "scraper_config \<Rightarrow> string \<Rightarrow> path" where
  "results_csv_file cfg site_url' = joinpath (Path (scrape_output_dir cfg)) ''scrape_results.csv''"

definition save_scrape_results ::
  "web_env \<Rightarrow> scraper_config \<Rightarrow> string \<Rightarrow> product_record list \<Rightarrow> world
     \<Rightarrow> exn option \<times> world" where
  "save_scrape_results env cfg site_url' results w =
     (case write_raises env (results_json_file cfg site_url') of
        Some e \<Rightarrow> (Some e, w)
      | None \<Rightarrow>
          let w1 = write_file (results_json_file cfg site_url') (ResultsJson results) w
          in (case write_raises env (results_csv_file cfg site_url') of
                Some e \<Rightarrow> (Some e, w1)
              | None \<Rightarrow> (None, write_file (results_csv_file cfg site_url') (ResultsCsv results) w1)))"

text \<open>
  The tasks of a site, gathered: one outcome per URL, in the order of the URLs.  The tasks
  are run here one after the other (what interleavings the semaphore admits is the subject
  of the next section).
\<close>

fun gather ::
  "web_env \<Rightarrow> scraper_config \<Rightarrow> string list \<Rightarrow> selectors \<Rightarrow> world
     \<Rightarrow> product_record option list \<times> world" where
  "gather env cfg [] sels w = ([], w)"
| "gather env cfg (u # us) sels w =
     (let (r, w1) = scrape_product env cfg u sels w;
          (rs, w2) = gather env cfg us sels w1
      in (r # rs, w2))"

definition valid_results :: "product_record option list \<Rightarrow> product_record list" where
  "valid_results results = concat (map (\<lambda>r. case r of None \<Rightarrow> [] | Some d \<Rightarrow> [d]) results)"

text \<open>
  One site.  The result is \<open>None\<close> when the call never returns: with a semaphore of value
  0 no task is ever admitted, and \<^verbatim>\<open>asyncio.gather\<close> waits for them for ever.
  \<^verbatim>\<open>asyncio.Semaphore\<close> raises \<^verbatim>\<open>ValueError\<close> on a negative value.
\<close>

definition scrape_site :: "web_env \<Rightarrow> scraper_config \<Rightarrow> site \<Rightarrow> world \<Rightarrow> world option" where
  "scrape_site env cfg s w =
     (let failed = (\<lambda>e w'. Some (log_error (''Error scraping site '' @ site_url s @ '': '') e w'))
      in case get_product_urls env (site_url s) of
           DiscoveryRaises e \<Rightarrow> failed e w
         | DiscoveryNone \<Rightarrow>
             if concurrent_requests cfg < 0
             then failed (ValueError ''Semaphore initial value must be >= 0'') w
             else failed (TypeError (quoted ''NoneType'' @ '' object is not iterable'')) w
         | DiscoveredUrls product_urls \<Rightarrow>
             if concurrent_requests cfg < 0
             then failed (ValueError ''Semaphore initial value must be >= 0'') w
             else if concurrent_requests cfg = 0 \<and> product_urls \<noteq> [] then None
             else
               let (results, w1) = gather env cfg product_urls (site_selectors s) w
               in (case save_scrape_results env cfg (site_url s) (valid_results results) w1 of
                     (Some e, w2) \<Rightarrow> failed e w2
                   | (None, w2) \<Rightarrow> Some w2))"

fun scrape_sites :: "web_env \<Rightarrow> scraper_config \<Rightarrow> site list \<Rightarrow> world \<Rightarrow> world option" where
  "scrape_sites env cfg [] w = Some w"
| "scrape_sites env cfg (s # rest) w =
     (case scrape_site env cfg s (log_info (''Scraping site: '' @ site_url s) w) of
        None \<Rightarrow> None
      | Some w1 \<Rightarrow> scrape_sites env cfg rest w1)"

definition start_scraping :: "web_env \<Rightarrow> scraper_config \<Rightarrow> world \<Rightarrow> world option" where
  "start_scraping env cfg w = scrape_sites env cfg (target_sites cfg) w"

section \<open>The semaphore of a site's batch\<close>

text \<open>
  \<open>scrape_site\<close> makes one \<^verbatim>\<open>asyncio.Semaphore(concurrent_requests)\<close> and one task per
  product URL; the whole body of a task is inside \<^verbatim>\<open>async with semaphore\<close>.  A task
  is \<open>Pending\<close> until it has acquired the semaphore, \<open>InFlight\<close> while it holds it (the
  delay, the fetch, the parse, the download) and \<open>Done\<close> once it has released it, on
  return or on an exception.
\<close>

datatype phase = Pending | InFlight | Done

record site_run =
  sem_value :: nat
  phases :: "phase list"

text \<open>
  The start of a site's batch of \<open>n\<close> tasks.  A negative value makes the constructor of
  the semaphore raise, and no task is created.
\<close>

definition new_site_run :: "scraper_config \<Rightarrow> nat \<Rightarrow> site_run" where
  "new_site_run cfg n =
     (if concurrent_requests cfg < 0 then \<lparr>sem_value = 0, phases = []\<rparr>
      else \<lparr>sem_value = nat (concurrent_requests cfg), phases = replicate n Pending\<rparr>)"

definition in_flight :: "site_run \<Rightarrow> nat" where
  "in_flight r = length (filter (\<lambda>p. p = InFlight) (phases r))"

text \<open>
  What the event loop can do next: let a pending task acquire the semaphore when its value
  is positive, let a task in flight release it, or, once every task of the site is done
  (\<^verbatim>\<open>asyncio.gather\<close> has returned), go on to the next site of \<open>target_sites\<close>, with a new
  semaphore.  The sites are given by their numbers of product URLs.
\<close>

datatype event = Acquire nat | Release nat | NextSite

record scraper_run =
  finished_runs :: "site_run list"
  current_run :: site_run
  sites_to_do :: "nat list"

definition initial_run :: "nat list \<Rightarrow> scraper_run" where
  "initial_run sites =
     \<lparr>finished_runs = [], current_run = \<lparr>sem_value = 0, phases = []\<rparr>, sites_to_do = sites\<rparr>"

fun step :: "scraper_config \<Rightarrow> event \<Rightarrow> scraper_run \<Rightarrow> scraper_run option" where
  "step cfg (Acquire i) st =
     (let r = current_run st
      in if i < length (phases r) \<and> phases r ! i = Pending \<and> 0 < sem_value r
         then Some (st\<lparr>current_run :=
                         \<lparr>sem_value = sem_value r - 1, phases = (phases r)[i := InFlight]\<rparr>\<rparr>)
         else None)"
| "step cfg (Release i) st =
     (let r = current_run st
      in if i < length (phases r) \<and> phases r ! i = InFlight
         then Some (st\<lparr>current_run :=
                         \<lparr>sem_value = sem_value r + 1, phases = (phases r)[i := Done]\<rparr>\<rparr>)
         else None)"
| "step cfg NextSite st =
     (case sites_to_do st of
        [] \<Rightarrow> None
      | n # rest \<Rightarrow>
          if list_all (\<lambda>p. p = Done) (phases (current_run st))
          then Some \<lparr>finished_runs = finished_runs st @ [current_run st],
                     current_run = new_site_run cfg n,
                     sites_to_do = rest\<rparr>
          else None)"

text \<open>An interleaving is a list of events; it is admitted when every event is enabled.\<close>

fun run_events :: "scraper_config \<Rightarrow> event list \<Rightarrow> scraper_run \<Rightarrow> scraper_run option" where
  "run_events cfg [] st = Some st"
| "run_events cfg (e # es) st =
     (case step cfg e st of None \<Rightarrow> None | Some st' \<Rightarrow> run_events cfg es st')"

definition total_in_flight :: "scraper_run \<Rightarrow> nat" where
  "total_in_flight st = sum_list (map in_flight (finished_runs st)) + in_flight (current_run st)"

text \<open>
  The invariant of the interleavings: the tasks in flight and the free slots of the
  current site's semaphore add up to the cap, and no task of an earlier site is in flight.
\<close>

definition sem_inv :: "scraper_config \<Rightarrow> scraper_run \<Rightarrow> bool" where
  "sem_inv cfg st \<longleftrightarrow>
     in_flight (current_run st) + sem_value (current_run st) \<le> nat (concurrent_requests cfg)
     \<and> (phases (current_run st) \<noteq> [] \<longrightarrow>
          in_flight (current_run st) + sem_value (current_run st) = nat (concurrent_requests cfg))
     \<and> sum_list (map in_flight (finished_runs st)) = 0"


section \<open>The S3 event handler (jewelry_processor.py)\<close>

unbundle bit_operations_syntax

text \<open>
  The values of a decoded JSON document, as Python has them.  Strings are over the code
  points below 256; numbers are the integers.
\<close>

datatype pyval =
    PNone
  | PBool bool
  | PInt int
  | PStr string
  | PList "pyval list"
  | PDict "(string \<times> pyval) list"

text \<open>The name of the type of a value, as the messages of the exceptions print it.\<close>

fun type_name :: "pyval \<Rightarrow> string" where
  "type_name PNone = ''NoneType''"
| "type_name (PBool b) = ''bool''"
| "type_name (PInt i) = ''int''"
| "type_name (PStr s) = ''str''"
| "type_name (PList xs) = ''list''"
| "type_name (PDict kvs) = ''dict''"

text \<open>
  Subscription \<^verbatim>\<open>v[k]\<close> by a string key or by a non-negative index, with the exception
  Python raises.
\<close>

fun getitem :: "pyval \<Rightarrow> subscript \<Rightarrow> exn + pyval" where
  "getitem (PDict kvs) (Key k) =
     (case map_of kvs k of None \<Rightarrow> Inl (KeyError (Key k)) | Some v \<Rightarrow> Inr v)"
| "getitem (PDict kvs) (Index i) = Inl (KeyError (Index i))"
| "getitem (PList xs) (Index i) =
     (if i < length xs then Inr (xs ! i) else Inl (IndexError ''list index out of range''))"
| "getitem (PList xs) (Key k) = Inl (TypeError ''list indices must be integers or slices, not str'')"
| "getitem (PStr s) (Index i) =
     (if i < length s then Inr (PStr [s ! i]) else Inl (IndexError ''string index out of range''))"
| "getitem (PStr s) (Key k) =
     Inl (TypeError (''string indices must be integers, not '' @ quoted ''str''))"
| "getitem v k = Inl (TypeError (quoted (type_name v) @ '' object is not subscriptable''))"

fun getpath :: "pyval \<Rightarrow> subscript list \<Rightarrow> exn + pyval" where
  "getpath v [] = Inr v"
| "getpath v (k # ks) = (case getitem v k of Inl e \<Rightarrow> Inl e | Inr v' \<Rightarrow> getpath v' ks)"

text \<open>
  The services behind the handler: the download of the object (to the local path
  \<^verbatim>\<open>/tmp/<key>\<close>), the upload of that file to the media service, which answers with a
  dictionary, and the write of the item to the table.
\<close>

record aws_env =
  s3_download_file :: "pyval \<Rightarrow> pyval \<Rightarrow> exn option"
  cloudinary_upload :: "pyval \<Rightarrow> exn + pyval"
  table_put_item :: "pyval \<Rightarrow> exn option"

text \<open>A response: the status code and the dictionary that \<^verbatim>\<open>json.dumps\<close> turns into the body.\<close>

record response =
  statusCode :: int
  body :: pyval

definition bucket_path :: "subscript list" where
  "bucket_path = [Key ''Records'', Index 0, Key ''s3'', Key ''bucket'', Key ''name'']"

definition key_path :: "subscript list" where
  "key_path = [Key ''Records'', Index 0, Key ''s3'', Key ''object'', Key ''key'']"

text \<open>The body of the \<^verbatim>\<open>try\<close> block: \<open>Inl e\<close> when \<open>e\<close> is raised inside it.\<close>

definition process_object :: "aws_env \<Rightarrow> pyval \<Rightarrow> pyval \<Rightarrow> exn + response" where
  "process_object env bucket key =
     (case s3_download_file env bucket key of
        Some e \<Rightarrow> Inl e
      | None \<Rightarrow>
          (case cloudinary_upload env key of
             Inl e \<Rightarrow> Inl e
           | Inr result \<Rightarrow>
               (case getitem result (Key ''secure_url'') of Inl e \<Rightarrow> Inl e | Inr secure_url \<Rightarrow>
               (case getitem result (Key ''format'') of Inl e \<Rightarrow> Inl e | Inr fmt \<Rightarrow>
               (case getitem result (Key ''bytes'') of Inl e \<Rightarrow> Inl e | Inr bytes \<Rightarrow>
               (case getitem result (Key ''width'') of Inl e \<Rightarrow> Inl e | Inr width \<Rightarrow>
               (case getitem result (Key ''height'') of Inl e \<Rightarrow> Inl e | Inr height \<Rightarrow>
               (case table_put_item env
                       (PDict [(''imageId'', key),
                               (''cloudinaryUrl'', secure_url),
                               (''metadata'',
                                  PDict [(''format'', fmt),
                                         (''size'', bytes),
                                         (''dimensions'',
                                            PDict [(''width'', width), (''height'', height)])])]) of
                  Some e \<Rightarrow> Inl e
                | None \<Rightarrow>
                    Inr \<lparr>statusCode = 200,
                         body = PDict [(''message'', PStr ''Image processed successfully''),
                                       (''imageUrl'', secure_url)]\<rparr>))))))))"

text \<open>
  The handler: the two lookups in the event come first, outside the \<^verbatim>\<open>try\<close>; an
  exception of theirs is raised to the caller (\<open>Inl\<close>).
\<close>

definition handler :: "aws_env \<Rightarrow> pyval \<Rightarrow> exn + response" where
  "handler env event =
     (case getpath event bucket_path of
        Inl e \<Rightarrow> Inl e
      | Inr bucket \<Rightarrow>
          (case getpath event key_path of
             Inl e \<Rightarrow> Inl e
           | Inr key \<Rightarrow>
               (case process_object env bucket key of
                  Inr r \<Rightarrow> Inr r
                | Inl e \<Rightarrow>
                    Inr \<lparr>statusCode = 500, body = PDict [(''error'', PStr (exn_str e))]\<rparr>)))"

section \<open>The webhook handler (webhook_handler.py)\<close>

subsection \<open>\<^verbatim>\<open>json.dumps(data, separators=(',', ':'), sort_keys=True)\<close>\<close>

definition hex_digit :: "nat \<Rightarrow> char" where
  "hex_digit n = ''0123456789abcdef'' ! (n mod 16)"

text \<open>
  The encoder escapes the quote, the backslash and every character outside the printable
  ASCII range (\<^verbatim>\<open>ensure_ascii\<close> is on).
\<close>

definition escape_char :: "char \<Rightarrow> string" where
  "escape_char c =
     (let n = (of_char c :: nat)
      in if n = 0x22 then [CHR 0x5C, CHR 0x22]
         else if n = 0x5C then [CHR 0x5C, CHR 0x5C]
         else if n = 0x0A then [CHR 0x5C, CHR ''n'']
         else if n = 0x0D then [CHR 0x5C, CHR ''r'']
         else if n = 0x09 then [CHR 0x5C, CHR ''t'']
         else if n = 0x08 then [CHR 0x5C, CHR ''b'']
         else if n = 0x0C then [CHR 0x5C, CHR ''f'']
         else if n < 0x20 \<or> 0x7E < n
         then [CHR 0x5C, CHR ''u'', CHR ''0'', CHR ''0'', hex_digit (n div 16), hex_digit n]
         else [c])"

definition json_string :: "string \<Rightarrow> string" where
  "json_string s = [CHR 0x22] @ concat (map escape_char s) @ [CHR 0x22]"

text \<open>The order of Python on strings: by code point, a proper prefix first.\<close>

fun str_le :: "string \<Rightarrow> string \<Rightarrow> bool" where
  "str_le [] t = True"
| "str_le (x # s) [] = False"
| "str_le (x # s) (y # t) =
     ((of_char x :: nat) < of_char y \<or> (x = y \<and> str_le s t))"

fun insert_item :: "string \<times> 'a \<Rightarrow> (string \<times> 'a) list \<Rightarrow> (string \<times> 'a) list" where
  "insert_item kv [] = [kv]"
| "insert_item kv (x # xs) = (if str_le (fst kv) (fst x) then kv # x # xs else x # insert_item kv xs)"

definition sort_items :: "(string \<times> 'a) list \<Rightarrow> (string \<times> 'a) list" where
  "sort_items kvs = foldr insert_item kvs []"

fun json_dumps :: "pyval \<Rightarrow> string" where
  "json_dumps PNone = ''null''"
| "json_dumps (PBool b) = (if b then ''true'' else ''false'')"
| "json_dumps (PInt i) = str_int i"
| "json_dumps (PStr s) = json_string s"
| "json_dumps (PList xs) = ''['' @ join_with '','' (map json_dumps xs) @ '']''"
| "json_dumps (PDict kvs) =
     ''{'' @ join_with '',''
               (map (\<lambda>(k, d). json_string k @ '':'' @ d)
                  (sort_items (map (\<lambda>(k, v). (k, json_dumps v)) kvs)))
         @ ''}''"

subsection \<open>\<^verbatim>\<open>hmac.new(key, msg, hashlib.sha256).hexdigest()\<close>\<close>

type_synonym byte = "8 word"

text \<open>\<^verbatim>\<open>str.encode('utf-8')\<close>, for code points below 256.\<close>

definition utf8_char :: "char \<Rightarrow> byte list" where
  "utf8_char c =
     (let n = (of_char c :: nat)
      in if n < 128 then [of_nat n]
         else [of_nat (192 + n div 64), of_nat (128 + n mod 64)])"

definition utf8 :: "string \<Rightarrow> byte list" where
  "utf8 s = concat (map utf8_char s)"

text \<open>
  The round constants: the first 32 bits of the fractional parts of the cube roots of the
  first 64 primes.  \<open>cube_root fuel lo hi n\<close> searches the largest \<open>r\<close> between
  \<open>lo\<close> and \<open>hi\<close> with \<open>r ^ 3 \<le> n\<close>, by bisection.
\<close>

fun cube_root :: "nat \<Rightarrow> int \<Rightarrow> int \<Rightarrow> int \<Rightarrow> int" where
  "cube_root 0 lo hi n = lo"
| "cube_root (Suc fuel) lo hi n =
     (if hi \<le> lo then lo
      else let mid = (lo + hi + 1) div 2
           in if mid * mid * mid \<le> n then cube_root fuel mid hi n
              else cube_root fuel lo (mid - 1) n)"

definition first_primes :: "nat list" where
  "first_primes =
     [2, 3, 5, 7, 11, 13, 17, 19, 23, 29, 31, 37, 41, 43, 47, 53, 59, 61, 67, 71, 73, 79,
      83, 89, 97, 101, 103, 107, 109, 113, 127, 131, 137, 139, 149, 151, 157, 163, 167,
      173, 179, 181, 191, 193, 197, 199, 211, 223, 227, 229, 233, 239, 241, 251, 257, 263,
      269, 271, 277, 281, 283, 293, 307, 311]"

definition round_constant :: "nat \<Rightarrow> 32 word" where
  "round_constant p = of_int (cube_root 40 0 (2 ^ 36) (int p * 2 ^ 96))"

definition K256 :: "32 word list" where
  "K256 = map round_constant first_primes"

type_synonym sha_state =
  "32 word \<times> 32 word \<times> 32 word \<times> 32 word \<times> 32 word \<times> 32 word \<times> 32 word \<times> 32 word"

definition H256 :: sha_state where
  "H256 = (0x6a09e667, 0xbb67ae85, 0x3c6ef372, 0xa54ff53a,
           0x510e527f, 0x9b05688c, 0x1f83d9ab, 0x5be0cd19)"

definition Ch :: "32 word \<Rightarrow> 32 word \<Rightarrow> 32 word \<Rightarrow> 32 word" where
  "Ch x y z = (x AND y) XOR (NOT x AND z)"

definition Maj :: "32 word \<Rightarrow> 32 word \<Rightarrow> 32 word \<Rightarrow> 32 word" where
  "Maj x y z = (x AND y) XOR (x AND z) XOR (y AND z)"

definition big_sigma0 :: "32 word \<Rightarrow> 32 word" where
  "big_sigma0 x = word_rotr 2 x XOR word_rotr 13 x XOR word_rotr 22 x"

definition big_sigma1 :: "32 word \<Rightarrow> 32 word" where
  "big_sigma1 x = word_rotr 6 x XOR word_rotr 11 x XOR word_rotr 25 x"

definition small_sigma0 :: "32 word \<Rightarrow> 32 word" where
  "small_sigma0 x = word_rotr 7 x XOR word_rotr 18 x XOR drop_bit 3 x"

definition small_sigma1 :: "32 word \<Rightarrow> 32 word" where
  "small_sigma1 x = word_rotr 17 x XOR word_rotr 19 x XOR drop_bit 10 x"

text \<open>The message schedule: \<open>n\<close> more words after the ones given.\<close>

fun schedule :: "nat \<Rightarrow> 32 word list \<Rightarrow> 32 word list" where
  "schedule 0 ws = ws"
| "schedule (Suc n) ws =
     schedule n
       (ws @ [small_sigma1 (ws ! (length ws - 2)) + ws ! (length ws - 7)
              + small_sigma0 (ws ! (length ws - 15)) + ws ! (length ws - 16)])"

fun sha_round :: "sha_state \<Rightarrow> 32 word \<times> 32 word \<Rightarrow> sha_state" where
  "sha_round (a, b, c, d, e, f, g, h) (k, w) =
     (let t1 = h + big_sigma1 e + Ch e f g + k + w;
          t2 = big_sigma0 a + Maj a b c
      in (t1 + t2, a, b, c, d + t1, e, f, g))"

fun add_state :: "sha_state \<Rightarrow> sha_state \<Rightarrow> sha_state" where
  "add_state (a, b, c, d, e, f, g, h) (a', b', c', d', e', f', g', h') =
     (a + a', b + b', c + c', d + d', e + e', f + f', g + g', h + h')"

definition be_word :: "byte list \<Rightarrow> 32 word" where
  "be_word bs = foldl (\<lambda>acc b. push_bit 8 acc OR ucast b) 0 bs"

fun chunks :: "nat \<Rightarrow> 'a list \<Rightarrow> 'a list list" where
  "chunks n xs = (if n = 0 \<or> xs = [] then [] else take n xs # chunks n (drop n xs))"

declare chunks.simps [simp del]

definition compress :: "32 word list \<Rightarrow> sha_state \<Rightarrow> byte list \<Rightarrow> sha_state" where
  "compress ks st block =
     add_state st (foldl sha_round st (zip ks (schedule 48 (map be_word (chunks 4 block)))))"

definition sha_pad :: "byte list \<Rightarrow> byte list" where
  "sha_pad msg =
     msg @ [0x80] @ replicate ((64 - (length msg + 9) mod 64) mod 64) 0
       @ map (\<lambda>i. ucast (drop_bit (8 * (7 - i)) (of_nat (8 * length msg) :: 64 word))) [0..<8]"

definition word_bytes :: "32 word \<Rightarrow> byte list" where
  "word_bytes w = [ucast (drop_bit 24 w), ucast (drop_bit 16 w), ucast (drop_bit 8 w), ucast w]"

fun state_bytes :: "sha_state \<Rightarrow> byte list" where
  "state_bytes (a, b, c, d, e, f, g, h) =
     word_bytes a @ word_bytes b @ word_bytes c @ word_bytes d
       @ word_bytes e @ word_bytes f @ word_bytes g @ word_bytes h"

definition sha256 :: "byte list \<Rightarrow> byte list" where
  "sha256 msg = state_bytes (foldl (compress K256) H256 (chunks 64 (sha_pad msg)))"

definition hmac_sha256 :: "byte list \<Rightarrow> byte list \<Rightarrow> byte list" where
  "hmac_sha256 key msg =
     (let k0 = (if 64 < length key then sha256 key else key);
          k = k0 @ replicate (64 - length k0) 0
      in sha256 (map (\<lambda>b. b XOR 0x5c) k @ sha256 (map (\<lambda>b. b XOR 0x36) k @ msg)))"

definition hex_byte :: "byte \<Rightarrow> string" where
  "hex_byte b = [hex_digit (unat b div 16), hex_digit (unat b)]"

definition hexdigest :: "byte list \<Rightarrow> string" where
  "hexdigest bs = concat (map hex_byte bs)"

subsection \<open>The handler\<close>

definition is_ascii :: "string \<Rightarrow> bool" where
  "is_ascii s = list_all (\<lambda>c. (of_char c :: nat) < 128) s"

text \<open>
  \<^verbatim>\<open>hmac.compare_digest\<close> on two strings: it raises \<^verbatim>\<open>TypeError\<close> when one of them has
  a character outside ASCII.  (That it takes the same time whatever the strings are is not
  part of this model.)
\<close>

definition compare_digest :: "string \<Rightarrow> string \<Rightarrow> exn + bool" where
  "compare_digest a b =
     (if is_ascii a \<and> is_ascii b then Inr (a = b)
      else Inl (TypeError ''comparing strings with non-ASCII characters is not supported''))"

definition computed_signature :: "string \<Rightarrow> pyval \<Rightarrow> string" where
  "computed_signature secret data = hexdigest (hmac_sha256 (utf8 secret) (utf8 (json_dumps data)))"

definition verify_signature :: "string \<Rightarrow> pyval \<Rightarrow> string \<Rightarrow> exn + bool" where
  "verify_signature secret data signature = compare_digest (computed_signature secret data) signature"

text \<open>\<^verbatim>\<open>data.get(k)\<close>: only a dictionary has the method.\<close>

fun dict_get :: "pyval \<Rightarrow> string \<Rightarrow> exn + pyval" where
  "dict_get (PDict kvs) k = Inr (case map_of kvs k of None \<Rightarrow> PNone | Some v \<Rightarrow> v)"
| "dict_get v k =
     Inl (AttributeError (quoted (type_name v) @ '' object has no attribute '' @ quoted ''get''))"

text \<open>
  The view function, given the shared secret, the value of the \<^verbatim>\<open>X-Webhook-Signature\<close>
  header (if present) and the decoded JSON body.  It answers with a body and a status, or
  raises (which the framework turns into a response with status 500).  The line logged
  before the acknowledgement is not part of the model.
\<close>

definition handle_webhook :: "string \<Rightarrow> string option \<Rightarrow> pyval \<Rightarrow> exn + (pyval \<times> int)" where
  "handle_webhook secret signature data =
     (case signature of
        None \<Rightarrow> Inr (PDict [(''error'', PStr ''Invalid signature'')], 400)
      | Some sig \<Rightarrow>
          if sig = [] then Inr (PDict [(''error'', PStr ''Invalid signature'')], 400)
          else
            (case verify_signature secret data sig of
               Inl e \<Rightarrow> Inl e
             | Inr ok \<Rightarrow>
                 if \<not> ok then Inr (PDict [(''error'', PStr ''Invalid signature'')], 400)
                 else
                   (case dict_get data ''event'' of Inl e \<Rightarrow> Inl e | Inr event_type \<Rightarrow>
                   (case dict_get data ''resource_type'' of Inl e \<Rightarrow> Inl e | Inr resource_type \<Rightarrow>
                   (case dict_get data ''public_id'' of Inl e \<Rightarrow> Inl e | Inr public_id \<Rightarrow>
                      Inr (PDict [(''status'', PStr ''success'')], 200))))))"

definition WEBHOOK_SECRET :: string where
  "WEBHOOK_SECRET = ''your_webhook_secret''"

section \<open>Example inputs\<close>

text \<open>
  A small tree: \<^verbatim>\<open>raw_data/rings\<close> holds \<^verbatim>\<open>a.png\<close> (600 by 800, RGBA),
  \<^verbatim>\<open>b.jpg\<close> (100 by 900), a corrupt \<^verbatim>\<open>c.jpg\<close> and \<^verbatim>\<open>sub/a.jpg\<close> (1024 by 1024);
  \<^verbatim>\<open>raw_data/empty\<close> holds no image; \<^verbatim>\<open>raw_data/readme.txt\<close> is a file.  The
  random generator always draws its lowest value, the operating system refuses no
  directory and no metadata file, and the tasks of a pool take effect in the order of
  submission.  Whether the save and the upload raise is left to the two arguments.
\<close>

definition example_tree_env :: "(path \<Rightarrow> exn option) \<Rightarrow> (string \<Rightarrow> exn option) \<Rightarrow> local_env" where
  "example_tree_env sv up =
     \<lparr>image_open = (\<lambda>p.
        if p = [''raw_data'', ''rings'', ''a.png''] then Inr \<lparr>img_mode = ''RGBA'', img_size = (600, 800)\<rparr>
        else if p = [''raw_data'', ''rings'', ''b.jpg''] then Inr \<lparr>img_mode = ''RGB'', img_size = (100, 900)\<rparr>
        else if p = [''raw_data'', ''rings'', ''sub'', ''a.jpg''] then Inr \<lparr>img_mode = ''RGB'', img_size = (1024, 1024)\<rparr>
        else Inl (OSError ''cannot identify image file'')),
      save_raises = sv,
      upload_raises = up,
      entropy = (\<lambda>p. 0),
      iterdir = (\<lambda>p. if p = [''raw_data'']
                       then Inr [[''raw_data'', ''rings''], [''raw_data'', ''readme.txt''],
                                 [''raw_data'', ''empty'']]
                       else Inl (FileNotFoundError
                                   (''[Errno 2] No such file or directory: '' @ quoted (path_str p)))),
      is_dir = (\<lambda>p. p = [''raw_data'', ''rings''] \<or> p = [''raw_data'', ''empty'']),
      glob = (\<lambda>p pat.
        if p = [''raw_data'', ''rings''] \<and> pat = ''**/*.jpg''
        then [[''raw_data'', ''rings'', ''b.jpg''], [''raw_data'', ''rings'', ''c.jpg''],
              [''raw_data'', ''rings'', ''sub'', ''a.jpg'']]
        else if p = [''raw_data'', ''rings''] \<and> pat = ''**/*.png''
        then [[''raw_data'', ''rings'', ''a.png'']]
        else []),
      mkdir_raises = (\<lambda>p. None),
      open_raises = (\<lambda>p. None),
      finish_rank = (\<lambda>p. 0)\<rparr>"


definition never :: "'a \<Rightarrow> exn option" where
  "never x = None"

definition always :: "exn \<Rightarrow> 'a \<Rightarrow> exn option" where
  "always e x = Some e"


text \<open>
  A small web: the site \<^verbatim>\<open>a.example\<close> lists a product page that can be scraped and one
  that answers 404, the site \<^verbatim>\<open>b.example\<close> lists one product page, the discovery of
  \<^verbatim>\<open>down.example\<close> raises, and for any other site the discovery is the stub of the
  source.  Whether writing a file raises is left to the argument.
\<close>

definition example_web_env :: "(path \<Rightarrow> exn option) \<Rightarrow> web_env" where
  "example_web_env wr =
     \<lparr>get_product_urls = (\<lambda>u.
        if u = ''https://a.example''
        then DiscoveredUrls [''https://a.example/p/ring-1'', ''https://a.example/p/gone'']
        else if u = ''https://b.example'' then DiscoveredUrls [''https://b.example/item/7'']
        else if u = ''https://down.example'' then DiscoveryRaises (ClientError ''Cannot connect to host'')
        else DiscoveryNone),
      http_get = (\<lambda>u agent.
        if u = ''https://a.example/p/ring-1'' then Response 200 ''<html>ring-1</html>''
        else if u = ''https://a.example/p/gone'' then Response 404 ''<html>not found</html>''
        else if u = ''https://b.example/item/7'' then Response 200 ''<html>item-7</html>''
        else if u = ''https://a.example/img/ring-1.png'' then Response 200 ''PNG-ring-1''
        else if u = ''https://b.example/img/7.png'' then Response 200 ''PNG-7''
        else Raises (ClientError ''Cannot connect to host'')),
      select_one = (\<lambda>html sel.
        if html = ''<html>ring-1</html>'' \<and> sel = ''div.product-image img''
        then Some \<lparr>tag_attrs = [(''alt'', ''ring''), (''src'', ''https://a.example/img/ring-1.png'')],
                   tag_text = ''''\<rparr>
        else if html = ''<html>ring-1</html>'' \<and> sel = ''h1.product-title''
        then Some \<lparr>tag_attrs = [], tag_text = '' Gold ring ''\<rparr>
        else if html = ''<html>ring-1</html>'' \<and> sel = ''span.price''
        then Some \<lparr>tag_attrs = [], tag_text = ''$120''\<rparr>
        else if html = ''<html>item-7</html>'' \<and> sel = ''div.product-image img''
        then Some \<lparr>tag_attrs = [(''src'', ''https://b.example/img/7.png'')], tag_text = ''''\<rparr>
        else if html = ''<html>item-7</html>'' \<and> sel = ''h1.product-title''
        then Some \<lparr>tag_attrs = [], tag_text = ''Pearl earrings''\<rparr>
        else if html = ''<html>item-7</html>'' \<and> sel = ''span.price''
        then Some \<lparr>tag_attrs = [], tag_text = ''$80''\<rparr>
        else None),
      write_raises = wr,
      choice_entropy = (\<lambda>u. 0)\<rparr>"

definition example_selectors :: selectors where
  "example_selectors =
     \<lparr>sel_image = ''div.product-image img'', sel_title = ''h1.product-title'',
      sel_price = ''span.price''\<rparr>"

definition example_site :: "string \<Rightarrow> site" where
  "example_site u = \<lparr>site_url = u, site_selectors = example_selectors\<rparr>"

text \<open>The default configuration with a pool of user agents and the given cap and sites.\<close>

definition example_scraper_config :: "int \<Rightarrow> site list \<Rightarrow> scraper_config" where
  "example_scraper_config cap sites =
     default_scraper_config
       \<lparr>concurrent_requests := cap, target_sites := sites,
        scraper_user_agents := Some [''Mozilla/5.0 (X11; Linux x86_64)'']\<rparr>"

text \<open>
  An S3 event for one object, and services that download the object
  \<^verbatim>\<open>rings/a_1000.jpg\<close> and fail to download any other; what the upload answers and
  whether the write of the item raises are left to the two arguments.
\<close>

definition example_event :: "string \<Rightarrow> string \<Rightarrow> pyval" where
  "example_event bucket key =
     PDict [(''Records'',
             PList [PDict [(''eventName'', PStr ''ObjectCreated:Put''),
                           (''s3'', PDict [(''bucket'', PDict [(''name'', PStr bucket)]),
                                           (''object'', PDict [(''key'', PStr key)])])]])]"

definition example_upload_result :: pyval where
  "example_upload_result =
     PDict [(''public_id'', PStr ''abc''),
            (''secure_url'', PStr ''https://res.example/abc.jpg''),
            (''format'', PStr ''jpg''), (''bytes'', PInt 48213),
            (''width'', PInt 600), (''height'', PInt 800)]"

definition example_aws_env :: "exn + pyval \<Rightarrow> exn option \<Rightarrow> aws_env" where
  "example_aws_env uploaded put =
     \<lparr>s3_download_file = (\<lambda>bucket key.
        if key = PStr ''rings/a_1000.jpg'' then None else Some (ClientError ''Not Found'')),
      cloudinary_upload = (\<lambda>key. uploaded),
      table_put_item = (\<lambda>item. put)\<rparr>"

section \<open>The image normalizer\<close>

lemma randint_range: "a \<le> b \<Longrightarrow> a \<le> randint a b e \<and> randint a b e \<le> b"
proof -
  assume ab: "a \<le> b"
  then have pos: "0 < nat (b - a + 1)" by simp
  have "e mod nat (b - a + 1) < nat (b - a + 1)" using pos by simp
  then have "int (e mod nat (b - a + 1)) < b - a + 1" using ab by linarith
  then show ?thesis unfolding randint_def by simp
qed

lemma convert_rgb_size: "img_size (convert_rgb img) = img_size img"
  by (simp add: convert_rgb_def)

lemma process_single_image_Some:
  "fst (process_single_image env cfg p out w) = Some r \<Longrightarrow>
     \<exists>img. image_open env p = Inr img
       \<and> \<not> int (min (fst (img_size img)) (snd (img_size img))) < min_image_size cfg
       \<and> save_raises env (joinpath out (output_name_of env p)) = None
       \<and> r = \<lparr>original_path = path_str p,
               processed_path = path_str (joinpath out (output_name_of env p)),
               category = path_name (path_parent p),
               dimensions = img_size img,
               s3_key = path_name (path_parent p) @ ''/'' @ output_name_of env p\<rparr>"
  by (auto simp: process_single_image_def Let_def convert_rgb_size split: sum.splits if_splits option.splits)

lemma process_single_image_accepted:
  "image_open env p = Inr img \<Longrightarrow>
   \<not> int (min (fst (img_size img)) (snd (img_size img))) < min_image_size cfg \<Longrightarrow>
   save_raises env (joinpath out (output_name_of env p)) = None \<Longrightarrow>
   fst (process_single_image env cfg p out w) =
     Some \<lparr>original_path = path_str p,
               processed_path = path_str (joinpath out (output_name_of env p)),
               category = path_name (path_parent p),
               dimensions = img_size img,
               s3_key = path_name (path_parent p) @ ''/'' @ output_name_of env p\<rparr>"
  by (simp add: process_single_image_def Let_def convert_rgb_size)

text \<open>
  Claim C1, as amended.  For a decodable image, every record that \<open>process_single_image\<close>
  returns carries the image's dimensions, and both are at least the configured minimum.
  When moreover the save of the normalized file does not raise, the image is accepted if
  and only if both of its dimensions are at least the minimum (so that a rejected image
  then has a dimension below it).
\<close>

theorem process_single_image_accepts_iff:
  assumes "image_open env p = Inr img"
  shows "(\<forall>r. fst (process_single_image env cfg p out w) = Some r \<longrightarrow>
            dimensions r = img_size img
            \<and> min_image_size cfg \<le> int (fst (dimensions r))
            \<and> min_image_size cfg \<le> int (snd (dimensions r)))
       \<and> (save_raises env (joinpath out (output_name_of env p)) = None \<longrightarrow>
            ((\<exists>r. fst (process_single_image env cfg p out w) = Some r)
              \<longleftrightarrow> min_image_size cfg \<le> int (fst (img_size img))
                  \<and> min_image_size cfg \<le> int (snd (img_size img))))"
proof (intro conjI allI impI)
  fix r assume r: "fst (process_single_image env cfg p out w) = Some r"
  from process_single_image_Some [OF r] assms
  have d: "dimensions r = img_size img"
    and m: "\<not> int (min (fst (img_size img)) (snd (img_size img))) < min_image_size cfg"
    by auto
  show "dimensions r = img_size img" by (rule d)
  show "min_image_size cfg \<le> int (fst (dimensions r))"
    using d m by (simp add: min_def split: if_splits)
  show "min_image_size cfg \<le> int (snd (dimensions r))"
    using d m by (simp add: min_def split: if_splits)
next
  assume sv: "save_raises env (joinpath out (output_name_of env p)) = None"
  show "(\<exists>r. fst (process_single_image env cfg p out w) = Some r)
          \<longleftrightarrow> min_image_size cfg \<le> int (fst (img_size img))
              \<and> min_image_size cfg \<le> int (snd (img_size img))"
  proof
    assume "\<exists>r. fst (process_single_image env cfg p out w) = Some r"
    then obtain r where "fst (process_single_image env cfg p out w) = Some r" ..
    from process_single_image_Some [OF this] assms
    show "min_image_size cfg \<le> int (fst (img_size img))
              \<and> min_image_size cfg \<le> int (snd (img_size img))"
      by (auto simp: min_def split: if_splits)
  next
    assume "min_image_size cfg \<le> int (fst (img_size img))
              \<and> min_image_size cfg \<le> int (snd (img_size img))"
    then have "\<not> int (min (fst (img_size img)) (snd (img_size img))) < min_image_size cfg"
      by (simp add: min_def)
    from process_single_image_accepted [OF assms this sv]
    show "\<exists>r. fst (process_single_image env cfg p out w) = Some r" by blast
  qed
qed

theorem process_single_image_accepts_iff_witness:
  "image_open (example_tree_env never never) [''raw_data'', ''rings'', ''a.png'']
     = Inr \<lparr>img_mode = ''RGBA'', img_size = (600, 800)\<rparr>
   \<and> save_raises (example_tree_env never never)
        (joinpath [''processed_datasets'', ''rings'']
           (output_name_of (example_tree_env never never) [''raw_data'', ''rings'', ''a.png''])) = None
   \<and> (\<exists>r. fst (process_single_image (example_tree_env never never) default_dataset_config
               [''raw_data'', ''rings'', ''a.png''] [''processed_datasets'', ''rings''] empty_world)
             = Some r
           \<and> dimensions r = (600, 800))"
  using process_single_image_accepts_iff
    [of "example_tree_env never never" "[''raw_data'', ''rings'', ''a.png'']"
        "\<lparr>img_mode = ''RGBA'', img_size = (600, 800)\<rparr>" default_dataset_config
        "[''processed_datasets'', ''rings'']" empty_world]
  by (auto simp: example_tree_env_def never_def default_dataset_config_def)

text \<open>
  Claim C1 as stated fails where the save raises: the image below is decodable and both of
  its dimensions are at least 512, and it is rejected.
\<close>

theorem process_single_image_save_raises_counterexample:
  "image_open (example_tree_env (always (OSError ''No space left on device'')) never)
       [''raw_data'', ''rings'', ''a.png'']
     = Inr \<lparr>img_mode = ''RGBA'', img_size = (600, 800)\<rparr>
   \<and> min_image_size default_dataset_config \<le> 600
   \<and> min_image_size default_dataset_config \<le> 800
   \<and> fst (process_single_image (example_tree_env (always (OSError ''No space left on device'')) never)
            default_dataset_config [''raw_data'', ''rings'', ''a.png'']
            [''processed_datasets'', ''rings''] empty_world) = None"
  by (simp add: process_single_image_def example_tree_env_def always_def
        default_dataset_config_def Let_def)

lemma process_single_image_accepted_full:
  assumes "image_open env p = Inr img"
    and "\<not> int (min (fst (img_size img)) (snd (img_size img))) < min_image_size cfg"
    and "save_raises env (joinpath out (output_name_of env p)) = None"
  shows "process_single_image env cfg p out w =
     (Some \<lparr>original_path = path_str p,
            processed_path = path_str (joinpath out (output_name_of env p)),
            category = path_name (path_parent p),
            dimensions = img_size img,
            s3_key = path_name (path_parent p) @ ''/'' @ output_name_of env p\<rparr>,
      upload_to_s3 env cfg (joinpath out (output_name_of env p)) (path_name (path_parent p))
        (output_name_of env p)
        (write_file (joinpath out (output_name_of env p)) (Jpeg (convert_rgb img)) w))"
  using assms by (simp add: process_single_image_def Let_def convert_rgb_size)

lemma upload_to_s3_files: "files (upload_to_s3 env cfg fp cat fname w) = files w"
  by (simp add: upload_to_s3_def log_error_def Let_def split: option.splits)

lemma process_single_image_result_indep:
  "fst (process_single_image env cfg p out w) = fst (process_single_image env cfg p out w')"
  by (simp add: process_single_image_def Let_def split: sum.splits option.splits)

lemma process_single_image_files:
  "files (snd (process_single_image env cfg p out w)) =
     (case fst (process_single_image env cfg p out w) of
        None \<Rightarrow> files w
      | Some r \<Rightarrow> (files w)(joinpath out (output_name_of env p) \<mapsto>
                     Jpeg (convert_rgb (projr (image_open env p)))))"
  by (simp add: process_single_image_def Let_def upload_to_s3_files write_file_def log_error_def
        split: sum.splits option.splits)

lemma run_tasks_map_of:
  "map_of (fst (run_tasks env cfg qs out w)) p =
     (if p \<in> set qs then Some (fst (process_single_image env cfg p out w0)) else None)"
proof (induction qs arbitrary: w)
  case Nil
  show ?case by simp
next
  case (Cons q qs)
  have "fst (process_single_image env cfg q out w) = fst (process_single_image env cfg q out w0)"
    by (rule process_single_image_result_indep)
  with Cons show ?case by (simp add: split_def Let_def)
qed

lemma process_images_results:
  "fst (process_images env cfg ps out w) =
     concat (map (\<lambda>p. case fst (process_single_image env cfg p out w0) of
                          None \<Rightarrow> [] | Some r \<Rightarrow> [r]) ps)"
proof -
  let ?finished = "fst (run_tasks env cfg (sort_key (finish_rank env) ps) out w)"
  have "(case map_of ?finished p of Some (Some result) \<Rightarrow> [result] | _ \<Rightarrow> [])
          = (case fst (process_single_image env cfg p out w0) of None \<Rightarrow> [] | Some r \<Rightarrow> [r])"
    if "p \<in> set ps" for p
    using that by (simp add: run_tasks_map_of [of env cfg _ out w p w0] split: option.splits)
  then have eq: "map (\<lambda>p. case map_of ?finished p of Some (Some result) \<Rightarrow> [result] | _ \<Rightarrow> []) ps
          = map (\<lambda>p. case fst (process_single_image env cfg p out w0) of
                          None \<Rightarrow> [] | Some r \<Rightarrow> [r]) ps"
    by (intro map_cong) simp_all
  show ?thesis
    unfolding process_images_def split_def Let_def fst_conv eq by (rule refl)
qed

text \<open>
  Claim C8.  The name of the normalized file of an accepted image is the stem of the
  original name, an underscore, the decimal digits of a number drawn from 1000 to 9999,
  and \<^verbatim>\<open>.jpg\<close>; the file is written under that name.  Nothing is retried: a second
  accepted image with the same stem for which the same number is drawn gets the same
  name, and its file replaces the first one.
\<close>

theorem output_name_stem_draw_and_collision:
  assumes "process_single_image env cfg p out w = (Some r, w1)"
  shows "1000 \<le> randint 1000 9999 (entropy env p) \<and> randint 1000 9999 (entropy env p) \<le> 9999
       \<and> processed_path r =
           path_str (joinpath out
             (path_stem p @ ''_'' @ str_int (randint 1000 9999 (entropy env p)) @ ''.jpg''))
       \<and> (\<exists>img. image_open env p = Inr img
             \<and> files w1 (joinpath out
                  (path_stem p @ ''_'' @ str_int (randint 1000 9999 (entropy env p)) @ ''.jpg''))
                = Some (Jpeg (convert_rgb img)))
       \<and> (\<forall>q r2 w2.
             path_stem q = path_stem p
             \<and> randint 1000 9999 (entropy env q) = randint 1000 9999 (entropy env p)
             \<and> process_single_image env cfg q out w1 = (Some r2, w2)
             \<longrightarrow> processed_path r2 = processed_path r
                 \<and> (\<exists>img2. image_open env q = Inr img2
                       \<and> files w2 (joinpath out
                            (path_stem p @ ''_'' @ str_int (randint 1000 9999 (entropy env p)) @ ''.jpg''))
                           = Some (Jpeg (convert_rgb img2))))"
proof -
  let ?n = "randint 1000 9999 (entropy env p)"
  from assms have r: "fst (process_single_image env cfg p out w) = Some r"
    and w1: "w1 = snd (process_single_image env cfg p out w)" by simp_all
  have name: "path_stem p @ ''_'' @ str_int ?n @ ''.jpg'' = output_name_of env p"
    by (simp add: output_name_of_def)
  from process_single_image_Some [OF r] obtain img where
    img: "image_open env p = Inr img"
    and pp: "processed_path r = path_str (joinpath out (output_name_of env p))"
    by auto
  have range: "1000 \<le> ?n \<and> ?n \<le> 9999" by (rule randint_range) simp
  have f1: "files w1 (joinpath out (output_name_of env p)) = Some (Jpeg (convert_rgb img))"
    using r img by (simp add: w1 process_single_image_files)
  have coll: "processed_path r2 = processed_path r
                \<and> (\<exists>img2. image_open env q = Inr img2
                      \<and> files w2 (joinpath out (output_name_of env p))
                          = Some (Jpeg (convert_rgb img2)))"
    if q: "path_stem q = path_stem p \<and> randint 1000 9999 (entropy env q) = ?n
           \<and> process_single_image env cfg q out w1 = (Some r2, w2)" for q r2 w2
  proof -
    from q have same: "output_name_of env q = output_name_of env p"
      by (simp add: output_name_of_def)
    from q have r2: "fst (process_single_image env cfg q out w1) = Some r2"
      and w2: "w2 = snd (process_single_image env cfg q out w1)" by simp_all
    from process_single_image_Some [OF r2] obtain img2 where
      img2: "image_open env q = Inr img2"
      and pp2: "processed_path r2 = path_str (joinpath out (output_name_of env q))"
      by auto
    have "files w2 (joinpath out (output_name_of env p)) = Some (Jpeg (convert_rgb img2))"
      using r2 img2 same by (simp add: w2 process_single_image_files)
    with pp pp2 same img2 show ?thesis by simp
  qed
  from range pp img f1 coll show ?thesis unfolding name by blast
qed

theorem output_name_stem_draw_and_collision_witness:
  "process_single_image (example_tree_env never never) default_dataset_config
       [''raw_data'', ''rings'', ''a.png''] [''processed_datasets'', ''rings''] empty_world
     = (Some \<lparr>original_path = ''raw_data/rings/a.png'',
              processed_path = ''processed_datasets/rings/a_1000.jpg'',
              category = ''rings'', dimensions = (600, 800),
              s3_key = ''rings/a_1000.jpg''\<rparr>,
        snd (process_single_image (example_tree_env never never) default_dataset_config
          [''raw_data'', ''rings'', ''a.png''] [''processed_datasets'', ''rings''] empty_world))
   \<and> files (snd (process_single_image (example_tree_env never never) default_dataset_config
          [''raw_data'', ''rings'', ''a.png''] [''processed_datasets'', ''rings''] empty_world))
        [''processed_datasets'', ''rings'', ''a_1000.jpg'']
       = Some (Jpeg \<lparr>img_mode = ''RGB'', img_size = (600, 800)\<rparr>)
   \<and> path_stem [''raw_data'', ''rings'', ''sub'', ''a.jpg''] = path_stem [''raw_data'', ''rings'', ''a.png'']
   \<and> fst (process_single_image (example_tree_env never never) default_dataset_config
          [''raw_data'', ''rings'', ''sub'', ''a.jpg''] [''processed_datasets'', ''rings'']
          (snd (process_single_image (example_tree_env never never) default_dataset_config
             [''raw_data'', ''rings'', ''a.png''] [''processed_datasets'', ''rings''] empty_world)))
       = Some \<lparr>original_path = ''raw_data/rings/sub/a.jpg'',
                processed_path = ''processed_datasets/rings/a_1000.jpg'',
                category = ''sub'', dimensions = (1024, 1024),
                s3_key = ''sub/a_1000.jpg''\<rparr>
   \<and> files (snd (process_single_image (example_tree_env never never) default_dataset_config
          [''raw_data'', ''rings'', ''sub'', ''a.jpg''] [''processed_datasets'', ''rings'']
          (snd (process_single_image (example_tree_env never never) default_dataset_config
             [''raw_data'', ''rings'', ''a.png''] [''processed_datasets'', ''rings''] empty_world))))
        [''processed_datasets'', ''rings'', ''a_1000.jpg'']
       = Some (Jpeg \<lparr>img_mode = ''RGB'', img_size = (1024, 1024)\<rparr>)"
proof -
  let ?env = "example_tree_env never never"
  let ?a = "[''raw_data'', ''rings'', ''a.png'']"
  let ?b = "[''raw_data'', ''rings'', ''sub'', ''a.jpg'']"
  let ?out = "[''processed_datasets'', ''rings'']"
  let ?ra = "\<lparr>original_path = ''raw_data/rings/a.png'',
              processed_path = ''processed_datasets/rings/a_1000.jpg'',
              category = ''rings'', dimensions = (600, 800),
              s3_key = ''rings/a_1000.jpg''\<rparr>"
  let ?rb = "\<lparr>original_path = ''raw_data/rings/sub/a.jpg'',
                processed_path = ''processed_datasets/rings/a_1000.jpg'',
                category = ''sub'', dimensions = (1024, 1024),
                s3_key = ''sub/a_1000.jpg''\<rparr>"
  let ?w1 = "snd (process_single_image ?env default_dataset_config ?a ?out empty_world)"
  let ?w2 = "snd (process_single_image ?env default_dataset_config ?b ?out ?w1)"
  have fa: "fst (process_single_image ?env default_dataset_config ?a ?out empty_world) = Some ?ra"
    by code_simp
  then have a: "process_single_image ?env default_dataset_config ?a ?out empty_world = (Some ?ra, ?w1)"
    by (simp add: prod_eq_iff)
  have "fst (process_single_image ?env default_dataset_config ?b ?out empty_world) = Some ?rb"
    by code_simp
  then have fb: "fst (process_single_image ?env default_dataset_config ?b ?out ?w1) = Some ?rb"
    by (simp add: process_single_image_result_indep [of _ _ _ _ ?w1 empty_world])
  then have b: "process_single_image ?env default_dataset_config ?b ?out ?w1 = (Some ?rb, ?w2)"
    by (simp add: prod_eq_iff)
  have stem: "path_stem ?b = path_stem ?a" by code_simp
  have name: "joinpath ?out (path_stem ?a @ ''_'' @ str_int (randint 1000 9999 (entropy ?env ?a)) @ ''.jpg'')
                = [''processed_datasets'', ''rings'', ''a_1000.jpg'']"
    by code_simp
  have opa: "image_open ?env ?a = Inr \<lparr>img_mode = ''RGBA'', img_size = (600, 800)\<rparr>"
    and opb: "image_open ?env ?b = Inr \<lparr>img_mode = ''RGB'', img_size = (1024, 1024)\<rparr>"
    by (simp_all add: example_tree_env_def)
  have draw: "randint 1000 9999 (entropy ?env ?b) = randint 1000 9999 (entropy ?env ?a)"
    by (simp add: example_tree_env_def)
  from output_name_stem_draw_and_collision [OF a]
  have f1: "\<exists>img. image_open ?env ?a = Inr img
                \<and> files ?w1 [''processed_datasets'', ''rings'', ''a_1000.jpg'']
                    = Some (Jpeg (convert_rgb img))"
    and coll: "\<forall>q r2 w2.
                 path_stem q = path_stem ?a
                 \<and> randint 1000 9999 (entropy ?env q) = randint 1000 9999 (entropy ?env ?a)
                 \<and> process_single_image ?env default_dataset_config q ?out ?w1 = (Some r2, w2)
                 \<longrightarrow> processed_path r2 = processed_path ?ra
                     \<and> (\<exists>img2. image_open ?env q = Inr img2
                           \<and> files w2 [''processed_datasets'', ''rings'', ''a_1000.jpg'']
                               = Some (Jpeg (convert_rgb img2)))"
    unfolding name by blast+
  from f1 opa have c2: "files ?w1 [''processed_datasets'', ''rings'', ''a_1000.jpg'']
       = Some (Jpeg \<lparr>img_mode = ''RGB'', img_size = (600, 800)\<rparr>)"
    by (simp add: convert_rgb_def)
  from coll stem draw b have "\<exists>img2. image_open ?env ?b = Inr img2
                           \<and> files ?w2 [''processed_datasets'', ''rings'', ''a_1000.jpg'']
                               = Some (Jpeg (convert_rgb img2))"
    by blast
  with opb have c5: "files ?w2 [''processed_datasets'', ''rings'', ''a_1000.jpg'']
       = Some (Jpeg \<lparr>img_mode = ''RGB'', img_size = (1024, 1024)\<rparr>)"
    by (simp add: convert_rgb_def)
  from a c2 stem fb c5 show ?thesis by simp
qed

text \<open>
  Claim C9.  When the upload of an accepted image raises, \<open>upload_to_s3\<close> catches and logs
  the exception: \<open>process_single_image\<close> returns the full record, the normalized file is
  in the output directory, nothing else changes but the log, and the record is in the
  metadata collected for a category that holds the image.
\<close>

theorem upload_failure_keeps_record_and_file:
  assumes "image_open env p = Inr img"
    and "\<not> int (min (fst (img_size img)) (snd (img_size img))) < min_image_size cfg"
    and "save_raises env (joinpath out (output_name_of env p)) = None"
    and "upload_raises env (path_name (path_parent p) @ ''/'' @ output_name_of env p) = Some e"
  shows "process_single_image env cfg p out w =
           (Some \<lparr>original_path = path_str p,
                  processed_path = path_str (joinpath out (output_name_of env p)),
                  category = path_name (path_parent p),
                  dimensions = img_size img,
                  s3_key = path_name (path_parent p) @ ''/'' @ output_name_of env p\<rparr>,
            w\<lparr>files := (files w)(joinpath out (output_name_of env p) \<mapsto> Jpeg (convert_rgb img)),
              log := log w @ [ERROR (''S3 upload error for ''
                                     @ path_str (joinpath out (output_name_of env p)) @ '': '') e]\<rparr>)
       \<and> (p \<in> set ps \<longrightarrow>
             \<lparr>original_path = path_str p,
              processed_path = path_str (joinpath out (output_name_of env p)),
              category = path_name (path_parent p),
              dimensions = img_size img,
              s3_key = path_name (path_parent p) @ ''/'' @ output_name_of env p\<rparr>
             \<in> set (fst (process_images env cfg ps out w)))"
proof
  show "process_single_image env cfg p out w =
           (Some \<lparr>original_path = path_str p,
                  processed_path = path_str (joinpath out (output_name_of env p)),
                  category = path_name (path_parent p),
                  dimensions = img_size img,
                  s3_key = path_name (path_parent p) @ ''/'' @ output_name_of env p\<rparr>,
            w\<lparr>files := (files w)(joinpath out (output_name_of env p) \<mapsto> Jpeg (convert_rgb img)),
              log := log w @ [ERROR (''S3 upload error for ''
                                     @ path_str (joinpath out (output_name_of env p)) @ '': '') e]\<rparr>)"
    using assms(4)
    by (simp add: process_single_image_accepted_full [OF assms(1-3)] upload_to_s3_def
          write_file_def log_error_def)
next
  show "p \<in> set ps \<longrightarrow>
             \<lparr>original_path = path_str p,
              processed_path = path_str (joinpath out (output_name_of env p)),
              category = path_name (path_parent p),
              dimensions = img_size img,
              s3_key = path_name (path_parent p) @ ''/'' @ output_name_of env p\<rparr>
             \<in> set (fst (process_images env cfg ps out w))"
  proof
    assume "p \<in> set ps"
    then show "\<lparr>original_path = path_str p,
              processed_path = path_str (joinpath out (output_name_of env p)),
              category = path_name (path_parent p),
              dimensions = img_size img,
              s3_key = path_name (path_parent p) @ ''/'' @ output_name_of env p\<rparr>
             \<in> set (fst (process_images env cfg ps out w))"
      unfolding process_images_results [of env cfg ps out w w]
      using process_single_image_accepted [OF assms(1-3), of w]
      by (auto intro!: bexI [of _ p])
  qed
qed

theorem upload_failure_keeps_record_and_file_witness:
  "fst (process_single_image (example_tree_env never (always (ClientError ''AccessDenied'')))
          default_dataset_config [''raw_data'', ''rings'', ''a.png'']
          [''processed_datasets'', ''rings''] empty_world)
     = Some \<lparr>original_path = ''raw_data/rings/a.png'',
              processed_path = ''processed_datasets/rings/a_1000.jpg'',
              category = ''rings'', dimensions = (600, 800),
              s3_key = ''rings/a_1000.jpg''\<rparr>
   \<and> files (snd (process_single_image (example_tree_env never (always (ClientError ''AccessDenied'')))
          default_dataset_config [''raw_data'', ''rings'', ''a.png'']
          [''processed_datasets'', ''rings''] empty_world))
        [''processed_datasets'', ''rings'', ''a_1000.jpg'']
     = Some (Jpeg \<lparr>img_mode = ''RGB'', img_size = (600, 800)\<rparr>)
   \<and> log (snd (process_single_image (example_tree_env never (always (ClientError ''AccessDenied'')))
          default_dataset_config [''raw_data'', ''rings'', ''a.png'']
          [''processed_datasets'', ''rings''] empty_world))
     = [ERROR ''S3 upload error for processed_datasets/rings/a_1000.jpg: '' (ClientError ''AccessDenied'')]
   \<and> \<lparr>original_path = ''raw_data/rings/a.png'',
       processed_path = ''processed_datasets/rings/a_1000.jpg'',
       category = ''rings'', dimensions = (600, 800),
       s3_key = ''rings/a_1000.jpg''\<rparr>
     \<in> set (fst (process_images (example_tree_env never (always (ClientError ''AccessDenied'')))
          default_dataset_config
          (image_paths (example_tree_env never (always (ClientError ''AccessDenied'')))
             [''raw_data'', ''rings''])
          [''processed_datasets'', ''rings''] empty_world))"
proof -
  let ?env = "example_tree_env never (always (ClientError ''AccessDenied''))"
  let ?a = "[''raw_data'', ''rings'', ''a.png'']"
  let ?out = "[''processed_datasets'', ''rings'']"
  have h1: "image_open ?env ?a = Inr \<lparr>img_mode = ''RGBA'', img_size = (600, 800)\<rparr>"
    by (simp add: example_tree_env_def)
  have h2: "\<not> int (min (fst (img_size \<lparr>img_mode = ''RGBA'', img_size = (600, 800)\<rparr>))
                       (snd (img_size \<lparr>img_mode = ''RGBA'', img_size = (600, 800)\<rparr>)))
             < min_image_size default_dataset_config"
    by (simp add: default_dataset_config_def)
  have h3: "save_raises ?env (joinpath ?out (output_name_of ?env ?a)) = None"
    by (simp add: example_tree_env_def never_def)
  have h4: "upload_raises ?env (path_name (path_parent ?a) @ ''/'' @ output_name_of ?env ?a)
              = Some (ClientError ''AccessDenied'')"
    by (simp add: example_tree_env_def always_def)
  have mem: "?a \<in> set (image_paths ?env [''raw_data'', ''rings''])"
    by (simp add: image_paths_def example_tree_env_def)
  have e1: "path_str ?a = ''raw_data/rings/a.png''" by code_simp
  have e2: "joinpath ?out ''a_1000.jpg'' = [''processed_datasets'', ''rings'', ''a_1000.jpg'']"
    by code_simp
  have e3: "path_str [''processed_datasets'', ''rings'', ''a_1000.jpg''] = ''processed_datasets/rings/a_1000.jpg''"
    by code_simp
  have e4: "path_name (path_parent ?a) = ''rings''" by code_simp
  have e5: "output_name_of ?env ?a = ''a_1000.jpg''" by code_simp
  from upload_failure_keeps_record_and_file [OF h1 h2 h3 h4,
      of empty_world "image_paths ?env [''raw_data'', ''rings'']"] mem
  show ?thesis
    unfolding e5 e2 e1 e3 e4
    by (simp add: empty_world_def convert_rgb_def)
qed

section \<open>The metadata of a category\<close>


lemma split_on_no_sep: "c \<notin> set s \<Longrightarrow> split_on c s = [s]"
  by (induction s) auto




lemma path_root_no_slash: "CHR ''/'' \<notin> set s \<Longrightarrow> path_root s = []"
  by (cases s) (auto simp: path_root_def)

lemma Path_single:
  "CHR ''/'' \<notin> set s \<Longrightarrow> 2 \<le> length s \<Longrightarrow> Path s = [s]"
  by (auto simp: Path_def split_on_no_sep path_root_no_slash)




lemma metadata_file_inj:
  assumes "CHR ''/'' \<notin> set c" and "CHR ''/'' \<notin> set c'"
    and "metadata_file cfg c = metadata_file cfg c'"
  shows "c = c'"
proof -
  have "Path (c @ ''_metadata.json'') = [c @ ''_metadata.json'']"
    by (rule Path_single) (use assms(1) in auto)
  moreover have "Path (c' @ ''_metadata.json'') = [c' @ ''_metadata.json'']"
    by (rule Path_single) (use assms(2) in auto)
  moreover have "path_root (c @ ''_metadata.json'') = []" "path_root (c' @ ''_metadata.json'') = []"
    using assms(1,2) by (simp_all add: path_root_no_slash)
  ultimately show ?thesis using assms(3) by (simp add: metadata_file_def joinpath_def)
qed


















section \<open>The scraper\<close>

lemma scrape_product_Some_iff:
  "fst (scrape_product env cfg u sels w) = Some r \<longleftrightarrow>
     (\<exists>agents html image_tag image_url title_tag price_tag image_data.
        scraper_user_agents cfg = Some agents \<and> agents \<noteq> []
        \<and> http_get env u (Some (agents ! (choice_entropy env u mod length agents))) = Response 200 html
        \<and> select_one env html (sel_image sels) = Some image_tag
        \<and> map_of (tag_attrs image_tag) ''src'' = Some image_url
        \<and> select_one env html (sel_title sels) = Some title_tag
        \<and> select_one env html (sel_price sels) = Some price_tag
        \<and> http_get env image_url None = Response 200 image_data
        \<and> image_data \<noteq> []
        \<and> write_raises env
             (joinpath (joinpath (Path (scrape_output_dir cfg)) ''images'')
                (last (split_on (CHR ''/'') u) @ ''.jpg'')) = None
        \<and> r = \<lparr>url = u, title = strip (tag_text title_tag), price = strip (tag_text price_tag),
                image_filename = last (split_on (CHR ''/'') u) @ ''.jpg''\<rparr>)"
  by (auto simp: scrape_product_def download_image_def save_image_def Let_def
        split: option.splits http_outcome.splits if_splits sum.splits prod.splits)

lemma scrape_product_result_indep:
  "fst (scrape_product env cfg u sels w) = fst (scrape_product env cfg u sels w')"
proof (cases "fst (scrape_product env cfg u sels w')")
  case None
  have "fst (scrape_product env cfg u sels w) \<noteq> Some r" for r
    using None scrape_product_Some_iff [of env cfg u sels w r]
      scrape_product_Some_iff [of env cfg u sels w' r] by simp
  with None show ?thesis by (cases "fst (scrape_product env cfg u sels w)") auto
next
  case (Some r)
  then show ?thesis
    using scrape_product_Some_iff [of env cfg u sels w r]
      scrape_product_Some_iff [of env cfg u sels w' r] by simp
qed

lemma gather_results:
  "fst (gather env cfg us sels w) = map (\<lambda>u. fst (scrape_product env cfg u sels w0)) us"
proof (induction us arbitrary: w)
  case Nil
  show ?case by simp
next
  case (Cons u us)
  have "fst (scrape_product env cfg u sels w) = fst (scrape_product env cfg u sels w0)"
    by (rule scrape_product_result_indep)
  with Cons show ?case by (simp add: split_def Let_def)
qed

lemma length_valid_results:
  "length (valid_results rs) = length rs - length (filter (\<lambda>r. r = None) rs)"
proof (induction rs)
  case Nil
  show ?case by (simp add: valid_results_def)
next
  case (Cons r rs)
  have "length (filter (\<lambda>r. r = None) rs) \<le> length rs" by simp
  with Cons show ?case by (cases r) (auto simp: valid_results_def Suc_diff_le)
qed

lemma results_files_differ: "results_json_file cfg u \<noteq> results_csv_file cfg u'"
proof -
  have "Path ''scrape_results.json'' = [''scrape_results.json'']" by code_simp
  moreover have "Path ''scrape_results.csv'' = [''scrape_results.csv'']" by code_simp
  ultimately show ?thesis by (simp add: results_json_file_def results_csv_file_def joinpath_def)
qed

lemma scrape_site_discovered:
  assumes "get_product_urls env (site_url s) = DiscoveredUrls urls"
    and "0 < concurrent_requests cfg"
    and "write_raises env (results_json_file cfg (site_url s)) = None"
    and "write_raises env (results_csv_file cfg (site_url s)) = None"
  shows "\<exists>w'. scrape_site env cfg s w = Some w'
           \<and> files w' (results_json_file cfg (site_url s))
               = Some (ResultsJson (valid_results
                    (map (\<lambda>u. fst (scrape_product env cfg u (site_selectors s) w)) urls)))
           \<and> files w' (results_csv_file cfg (site_url s))
               = Some (ResultsCsv (valid_results
                    (map (\<lambda>u. fst (scrape_product env cfg u (site_selectors s) w)) urls)))"
  using assms results_files_differ [of cfg "site_url s" "site_url s"]
  by (simp add: scrape_site_def save_scrape_results_def split_def Let_def write_file_def
        gather_results [of env cfg urls "site_selectors s" w w])

lemma scrape_product_default_config:
  "fst (scrape_product env default_scraper_config u sels w) = None"
  by (simp add: scrape_product_def default_scraper_config_def)

text \<open>
  Claim C2, as amended.  \<open>scrape_product\<close> returns a record exactly when the configuration
  has a non-empty pool of user agents, the page fetch answers 200, the three selectors
  match, the matched image element has a \<^verbatim>\<open>src\<close> attribute, the image fetch answers 200
  with a non-empty body, and the image file is written without an exception; the record
  then holds the URL, the stripped title and price and the file name.  For a site whose
  discovery gives \<open>N\<close> URLs (with a positive cap and writable artifacts) the result set
  written for the site holds the records of the tasks that returned one, \<open>N - k\<close> of them
  when \<open>k\<close> tasks returned none.
\<close>

theorem scrape_product_record_iff_and_batch_count:
  "(fst (scrape_product env cfg u sels w) = Some r \<longleftrightarrow>
     (\<exists>agents html image_tag image_url title_tag price_tag image_data.
        scraper_user_agents cfg = Some agents \<and> agents \<noteq> []
        \<and> http_get env u (Some (agents ! (choice_entropy env u mod length agents))) = Response 200 html
        \<and> select_one env html (sel_image sels) = Some image_tag
        \<and> map_of (tag_attrs image_tag) ''src'' = Some image_url
        \<and> select_one env html (sel_title sels) = Some title_tag
        \<and> select_one env html (sel_price sels) = Some price_tag
        \<and> http_get env image_url None = Response 200 image_data
        \<and> image_data \<noteq> []
        \<and> write_raises env
             (joinpath (joinpath (Path (scrape_output_dir cfg)) ''images'')
                (last (split_on (CHR ''/'') u) @ ''.jpg'')) = None
        \<and> r = \<lparr>url = u, title = strip (tag_text title_tag), price = strip (tag_text price_tag),
                image_filename = last (split_on (CHR ''/'') u) @ ''.jpg''\<rparr>))
   \<and> (get_product_urls env (site_url s) = DiscoveredUrls urls
        \<and> 0 < concurrent_requests cfg
        \<and> write_raises env (results_json_file cfg (site_url s)) = None
        \<and> write_raises env (results_csv_file cfg (site_url s)) = None
       \<longrightarrow> (\<exists>w' rs. scrape_site env cfg s w = Some w'
              \<and> rs = valid_results (map (\<lambda>u. fst (scrape_product env cfg u (site_selectors s) w)) urls)
              \<and> files w' (results_json_file cfg (site_url s)) = Some (ResultsJson rs)
              \<and> length rs = length urls
                   - length (filter (\<lambda>u. fst (scrape_product env cfg u (site_selectors s) w) = None) urls)))"
proof (intro conjI impI)
  show "fst (scrape_product env cfg u sels w) = Some r \<longleftrightarrow>
     (\<exists>agents html image_tag image_url title_tag price_tag image_data.
        scraper_user_agents cfg = Some agents \<and> agents \<noteq> []
        \<and> http_get env u (Some (agents ! (choice_entropy env u mod length agents))) = Response 200 html
        \<and> select_one env html (sel_image sels) = Some image_tag
        \<and> map_of (tag_attrs image_tag) ''src'' = Some image_url
        \<and> select_one env html (sel_title sels) = Some title_tag
        \<and> select_one env html (sel_price sels) = Some price_tag
        \<and> http_get env image_url None = Response 200 image_data
        \<and> image_data \<noteq> []
        \<and> write_raises env
             (joinpath (joinpath (Path (scrape_output_dir cfg)) ''images'')
                (last (split_on (CHR ''/'') u) @ ''.jpg'')) = None
        \<and> r = \<lparr>url = u, title = strip (tag_text title_tag), price = strip (tag_text price_tag),
                image_filename = last (split_on (CHR ''/'') u) @ ''.jpg''\<rparr>)"
    by (rule scrape_product_Some_iff)
next
  let ?f = "\<lambda>u. fst (scrape_product env cfg u (site_selectors s) w)"
  assume a: "get_product_urls env (site_url s) = DiscoveredUrls urls
        \<and> 0 < concurrent_requests cfg
        \<and> write_raises env (results_json_file cfg (site_url s)) = None
        \<and> write_raises env (results_csv_file cfg (site_url s)) = None"
  then obtain w' where w': "scrape_site env cfg s w = Some w'"
    "files w' (results_json_file cfg (site_url s)) = Some (ResultsJson (valid_results (map ?f urls)))"
    using scrape_site_discovered [of env s urls cfg w] by blast
  have "length (valid_results (map ?f urls))
          = length (map ?f urls) - length (filter (\<lambda>r. r = None) (map ?f urls))"
    by (rule length_valid_results)
  also have "\<dots> = length urls - length (filter (\<lambda>u. ?f u = None) urls)"
    by (simp add: filter_map comp_def)
  finally show "\<exists>w' rs. scrape_site env cfg s w = Some w'
              \<and> rs = valid_results (map ?f urls)
              \<and> files w' (results_json_file cfg (site_url s)) = Some (ResultsJson rs)
              \<and> length rs = length urls - length (filter (\<lambda>u. ?f u = None) urls)"
    using w' by blast
qed

theorem scrape_product_record_iff_and_batch_count_witness:
  "fst (scrape_product (example_web_env never) (example_scraper_config 3 [])
          ''https://a.example/p/ring-1'' example_selectors empty_world)
     = Some \<lparr>url = ''https://a.example/p/ring-1'', title = ''Gold ring'', price = ''$120'',
             image_filename = ''ring-1.jpg''\<rparr>
   \<and> fst (scrape_product (example_web_env never) (example_scraper_config 3 [])
          ''https://a.example/p/gone'' example_selectors empty_world) = None
   \<and> get_product_urls (example_web_env never) (site_url (example_site ''https://a.example''))
       = DiscoveredUrls [''https://a.example/p/ring-1'', ''https://a.example/p/gone'']
   \<and> (\<exists>w'. scrape_site (example_web_env never) (example_scraper_config 3 [])
                (example_site ''https://a.example'') empty_world = Some w'
          \<and> files w' [''scraped_data'', ''scrape_results.json'']
              = Some (ResultsJson
                  [\<lparr>url = ''https://a.example/p/ring-1'', title = ''Gold ring'', price = ''$120'',
                    image_filename = ''ring-1.jpg''\<rparr>]))"
proof -
  let ?env = "example_web_env never"
  let ?cfg = "example_scraper_config 3 []"
  let ?s = "example_site ''https://a.example''"
  let ?r = "\<lparr>url = ''https://a.example/p/ring-1'', title = ''Gold ring'', price = ''$120'',
             image_filename = ''ring-1.jpg''\<rparr>"
  have r1: "fst (scrape_product ?env ?cfg ''https://a.example/p/ring-1'' example_selectors empty_world)
              = Some ?r" by code_simp
  have r2: "fst (scrape_product ?env ?cfg ''https://a.example/p/gone'' example_selectors empty_world)
              = None" by code_simp
  have d: "get_product_urls ?env (site_url ?s)
             = DiscoveredUrls [''https://a.example/p/ring-1'', ''https://a.example/p/gone'']"
    by (simp add: example_web_env_def example_site_def)
  have c: "0 < concurrent_requests ?cfg" by (simp add: example_scraper_config_def)
  have wj: "write_raises ?env (results_json_file ?cfg (site_url ?s)) = None"
    and wc: "write_raises ?env (results_csv_file ?cfg (site_url ?s)) = None"
    by (simp_all add: example_web_env_def never_def)
  have jf: "results_json_file ?cfg (site_url ?s) = [''scraped_data'', ''scrape_results.json'']"
    by code_simp
  have sel: "site_selectors ?s = example_selectors" by (simp add: example_site_def)
  from scrape_product_record_iff_and_batch_count
         [of ?env ?cfg "''https://a.example/p/ring-1''" example_selectors empty_world ?r ?s
             "[''https://a.example/p/ring-1'', ''https://a.example/p/gone'']"]
       d c wj wc
  have "\<exists>w' rs. scrape_site ?env ?cfg ?s empty_world = Some w'
          \<and> rs = valid_results (map (\<lambda>u. fst (scrape_product ?env ?cfg u (site_selectors ?s) empty_world))
                    [''https://a.example/p/ring-1'', ''https://a.example/p/gone''])
          \<and> files w' (results_json_file ?cfg (site_url ?s)) = Some (ResultsJson rs)"
    by blast
  then have "\<exists>w'. scrape_site ?env ?cfg ?s empty_world = Some w'
          \<and> files w' [''scraped_data'', ''scrape_results.json''] = Some (ResultsJson [?r])"
    unfolding jf sel by (simp add: r1 r2 valid_results_def)
  with r1 r2 d show ?thesis by blast
qed

text \<open>
  Claim C2 as stated fails where the image file cannot be written: the page fetch answers
  200, the three selectors match and the image fetch answers 200 with data, and the task
  returns no record.
\<close>

theorem scrape_product_write_raises_counterexample:
  "http_get (example_web_env (always (OSError ''File name too long'')))
       ''https://a.example/p/ring-1'' (Some ''Mozilla/5.0 (X11; Linux x86_64)'')
     = Response 200 ''<html>ring-1</html>''
   \<and> select_one (example_web_env (always (OSError ''File name too long'')))
       ''<html>ring-1</html>'' (sel_image example_selectors)
     = Some \<lparr>tag_attrs = [(''alt'', ''ring''), (''src'', ''https://a.example/img/ring-1.png'')],
             tag_text = []\<rparr>
   \<and> select_one (example_web_env (always (OSError ''File name too long'')))
       ''<html>ring-1</html>'' (sel_title example_selectors)
     = Some \<lparr>tag_attrs = [], tag_text = '' Gold ring ''\<rparr>
   \<and> select_one (example_web_env (always (OSError ''File name too long'')))
       ''<html>ring-1</html>'' (sel_price example_selectors)
     = Some \<lparr>tag_attrs = [], tag_text = ''$120''\<rparr>
   \<and> http_get (example_web_env (always (OSError ''File name too long'')))
       ''https://a.example/img/ring-1.png'' None
     = Response 200 ''PNG-ring-1''
   \<and> fst (scrape_product (example_web_env (always (OSError ''File name too long'')))
          (example_scraper_config 3 []) ''https://a.example/p/ring-1'' example_selectors empty_world)
     = None"
  by code_simp

text \<open>
  Claim C4 fails in the code for sites.  The name of a category's artifact is made of the
  category, and distinct categories have distinct artifacts.  The names of a site's two
  artifacts are fixed: a run over \<^verbatim>\<open>a.example\<close> and \<^verbatim>\<open>b.example\<close> leaves one JSON
  artifact, and it holds the record of the second site only.
\<close>

theorem save_scrape_results_same_file_for_all_sites:
  "results_json_file (example_scraper_config 3 []) ''https://a.example''
     = results_json_file (example_scraper_config 3 []) ''https://b.example''
   \<and> results_csv_file (example_scraper_config 3 []) ''https://a.example''
     = results_csv_file (example_scraper_config 3 []) ''https://b.example''
   \<and> map_option (\<lambda>w. files w [''scraped_data'', ''scrape_results.json''])
       (scrape_sites (example_web_env never) (example_scraper_config 3 [])
          [example_site ''https://a.example''] empty_world)
     = Some (Some (ResultsJson
         [\<lparr>url = ''https://a.example/p/ring-1'', title = ''Gold ring'', price = ''$120'',
           image_filename = ''ring-1.jpg''\<rparr>]))
   \<and> map_option (\<lambda>w. files w [''scraped_data'', ''scrape_results.json''])
       (scrape_sites (example_web_env never) (example_scraper_config 3 [])
          [example_site ''https://a.example'', example_site ''https://b.example''] empty_world)
     = Some (Some (ResultsJson
         [\<lparr>url = ''https://b.example/item/7'', title = ''Pearl earrings'', price = ''$80'',
           image_filename = ''7.jpg''\<rparr>]))
   \<and> metadata_file default_dataset_config ''rings'' \<noteq> metadata_file default_dataset_config ''necklaces''"
  by code_simp

lemma distinct_categories_distinct_artifacts:
  "CHR ''/'' \<notin> set c \<Longrightarrow> CHR ''/'' \<notin> set c' \<Longrightarrow> c \<noteq> c' \<Longrightarrow>
     metadata_file cfg c \<noteq> metadata_file cfg c'"
  using metadata_file_inj by blast

lemma scrape_sites_append:
  "scrape_sites env cfg (xs @ ys) w =
     (case scrape_sites env cfg xs w of None \<Rightarrow> None | Some w1 \<Rightarrow> scrape_sites env cfg ys w1)"
  by (induction xs arbitrary: w) (auto split: option.splits)

text \<open>
  Claim C6.  When the discovery of a site's URLs raises, \<open>scrape_site\<close> catches the
  exception and logs it: the call returns, no file is written, and the loop of
  \<open>start_scraping\<close> goes on with the sites configured after it, from a state that differs
  only by the two log lines.
\<close>

theorem discovery_failure_skips_only_that_site:
  assumes "get_product_urls env (site_url s) = DiscoveryRaises e"
  shows "scrape_site env cfg s w
           = Some (log_error (''Error scraping site '' @ site_url s @ '': '') e w)
       \<and> (\<exists>w'. scrape_site env cfg s w = Some w' \<and> files w' = files w)
       \<and> scrape_sites env cfg (s # rest) w
           = scrape_sites env cfg rest
               (log_error (''Error scraping site '' @ site_url s @ '': '') e
                  (log_info (''Scraping site: '' @ site_url s) w))
       \<and> (target_sites cfg = before @ s # rest \<longrightarrow>
            start_scraping env cfg w
              = (case scrape_sites env cfg before w of
                   None \<Rightarrow> None
                 | Some w1 \<Rightarrow>
                     scrape_sites env cfg rest
                       (log_error (''Error scraping site '' @ site_url s @ '': '') e
                          (log_info (''Scraping site: '' @ site_url s) w1))))"
proof -
  have one: "scrape_site env cfg s w'
           = Some (log_error (''Error scraping site '' @ site_url s @ '': '') e w')" for w'
    using assms by (simp add: scrape_site_def)
  have two: "scrape_sites env cfg (s # rest) w'
           = scrape_sites env cfg rest
               (log_error (''Error scraping site '' @ site_url s @ '': '') e
                  (log_info (''Scraping site: '' @ site_url s) w'))" for w'
    by (simp add: one)
  have three: "start_scraping env cfg w
              = (case scrape_sites env cfg before w of
                   None \<Rightarrow> None
                 | Some w1 \<Rightarrow>
                     scrape_sites env cfg rest
                       (log_error (''Error scraping site '' @ site_url s @ '': '') e
                          (log_info (''Scraping site: '' @ site_url s) w1)))"
    if "target_sites cfg = before @ s # rest"
    unfolding start_scraping_def that scrape_sites_append
    by (cases "scrape_sites env cfg before w") (simp_all only: option.case two)
  from one two three show ?thesis by (simp add: log_error_def)
qed

theorem discovery_failure_skips_only_that_site_witness:
  "get_product_urls (example_web_env never) (site_url (example_site ''https://down.example''))
     = DiscoveryRaises (ClientError ''Cannot connect to host'')
   \<and> target_sites (example_scraper_config 3
        [example_site ''https://down.example'', example_site ''https://b.example''])
     = [] @ example_site ''https://down.example'' # [example_site ''https://b.example'']
   \<and> map_option (\<lambda>w. (files w [''scraped_data'', ''scrape_results.json''], log w))
       (start_scraping (example_web_env never)
          (example_scraper_config 3
             [example_site ''https://down.example'', example_site ''https://b.example''])
          empty_world)
     = Some (Some (ResultsJson
                [\<lparr>url = ''https://b.example/item/7'', title = ''Pearl earrings'', price = ''$80'',
                  image_filename = ''7.jpg''\<rparr>]),
             [INFO ''Scraping site: https://down.example'',
              ERROR ''Error scraping site https://down.example: '' (ClientError ''Cannot connect to host''),
              INFO ''Scraping site: https://b.example''])"
proof -
  let ?env = "example_web_env never"
  let ?down = "example_site ''https://down.example''"
  let ?b = "example_site ''https://b.example''"
  let ?cfg = "example_scraper_config 3 [?down, ?b]"
  let ?e = "ClientError ''Cannot connect to host''"
  have h: "get_product_urls ?env (site_url ?down) = DiscoveryRaises ?e"
    by (simp add: example_web_env_def example_site_def)
  have t: "target_sites ?cfg = [] @ ?down # [?b]"
    by (simp add: example_scraper_config_def)
  have rest: "map_option (\<lambda>w. (files w [''scraped_data'', ''scrape_results.json''], log w))
       (scrape_sites ?env ?cfg [?b]
          (log_error (''Error scraping site '' @ site_url ?down @ '': '') ?e
             (log_info (''Scraping site: '' @ site_url ?down) empty_world)))
     = Some (Some (ResultsJson
                [\<lparr>url = ''https://b.example/item/7'', title = ''Pearl earrings'', price = ''$80'',
                  image_filename = ''7.jpg''\<rparr>]),
             [INFO ''Scraping site: https://down.example'',
              ERROR ''Error scraping site https://down.example: '' ?e,
              INFO ''Scraping site: https://b.example''])"
    by code_simp
  from discovery_failure_skips_only_that_site [OF h, of ?cfg empty_world "[?b]" "[]"] t
  have "start_scraping ?env ?cfg empty_world
          = scrape_sites ?env ?cfg [?b]
             (log_error (''Error scraping site '' @ site_url ?down @ '': '') ?e
               (log_info (''Scraping site: '' @ site_url ?down) empty_world))"
    by simp
  with rest h t show ?thesis by simp
qed

section \<open>The concurrency cap\<close>

lemma count_list_update:
  "i < length xs \<Longrightarrow>
     length (filter P (xs[i := y])) + (if P (xs ! i) then 1 else 0)
       = length (filter P xs) + (if P y then 1 else 0)"
proof (induction xs arbitrary: i)
  case Nil
  then show ?case by simp
next
  case (Cons x xs)
  then show ?case by (cases i) auto
qed

lemma in_flight_all_done:
  "list_all (\<lambda>p. p = Done) (phases r) \<Longrightarrow> in_flight r = 0"
  by (induction "phases r" arbitrary: r) (auto simp: in_flight_def list_all_iff filter_empty_conv)

lemma sem_inv_initial: "sem_inv cfg (initial_run sites)"
  by (simp add: sem_inv_def initial_run_def in_flight_def)

lemma sem_inv_step:
  assumes "sem_inv cfg st" and "step cfg e st = Some st'"
  shows "sem_inv cfg st'"
proof (cases e)
  case (Acquire i)
  let ?r = "current_run st"
  from assms(2) Acquire have en: "i < length (phases ?r)" "phases ?r ! i = Pending" "0 < sem_value ?r"
    and st': "st' = st\<lparr>current_run := \<lparr>sem_value = sem_value ?r - 1, phases = (phases ?r)[i := InFlight]\<rparr>\<rparr>"
    by (auto simp: Let_def split: if_splits)
  from count_list_update [OF en(1), of "\<lambda>p. p = InFlight" InFlight] en(2)
  have "length (filter (\<lambda>p. p = InFlight) ((phases ?r)[i := InFlight]))
          = length (filter (\<lambda>p. p = InFlight) (phases ?r)) + 1" by simp
  with assms(1) en show ?thesis by (auto simp: sem_inv_def st' in_flight_def)
next
  case (Release i)
  let ?r = "current_run st"
  from assms(2) Release have en: "i < length (phases ?r)" "phases ?r ! i = InFlight"
    and st': "st' = st\<lparr>current_run := \<lparr>sem_value = sem_value ?r + 1, phases = (phases ?r)[i := Done]\<rparr>\<rparr>"
    by (auto simp: Let_def split: if_splits)
  from count_list_update [OF en(1), of "\<lambda>p. p = InFlight" Done] en(2)
  have "length (filter (\<lambda>p. p = InFlight) ((phases ?r)[i := Done])) + 1
          = length (filter (\<lambda>p. p = InFlight) (phases ?r))" by simp
  with assms(1) en show ?thesis by (auto simp: sem_inv_def st' in_flight_def)
next
  case NextSite
  from assms(2) NextSite obtain n rest where
    todo: "sites_to_do st = n # rest"
    and alldone: "list_all (\<lambda>p. p = Done) (phases (current_run st))"
    and st': "st' = \<lparr>finished_runs = finished_runs st @ [current_run st],
                     current_run = new_site_run cfg n, sites_to_do = rest\<rparr>"
    by (auto split: list.splits if_splits)
  from alldone have "in_flight (current_run st) = 0" by (rule in_flight_all_done)
  with assms(1) show ?thesis
    by (auto simp: sem_inv_def st' new_site_run_def in_flight_def)
qed

lemma sem_inv_run_events:
  "sem_inv cfg st \<Longrightarrow> run_events cfg es st = Some st' \<Longrightarrow> sem_inv cfg st'"
proof (induction es arbitrary: st)
  case Nil
  then show ?case by simp
next
  case (Cons e es)
  then show ?case by (auto split: option.splits dest: sem_inv_step)
qed

text \<open>
  Claim C7.  In every interleaving that the semaphore admits, of any list of sites, the
  number of tasks in flight (over all sites) never exceeds the configured cap; the cap is
  that of the current site's own semaphore (its free slots and the site's tasks in flight
  add up to the cap), and no task of an earlier site is still in flight.
\<close>

theorem in_flight_never_exceeds_cap:
  assumes "run_events cfg evs (initial_run sites) = Some st"
  shows "total_in_flight st \<le> nat (concurrent_requests cfg)
       \<and> (phases (current_run st) \<noteq> [] \<longrightarrow>
            in_flight (current_run st) + sem_value (current_run st) = nat (concurrent_requests cfg))
       \<and> (\<forall>r \<in> set (finished_runs st). in_flight r = 0)"
proof -
  have "sem_inv cfg st"
    using sem_inv_initial assms by (rule sem_inv_run_events)
  then have a: "in_flight (current_run st) + sem_value (current_run st) \<le> nat (concurrent_requests cfg)"
    and b: "phases (current_run st) \<noteq> [] \<longrightarrow>
            in_flight (current_run st) + sem_value (current_run st) = nat (concurrent_requests cfg)"
    and c: "sum_list (map in_flight (finished_runs st)) = 0"
    by (simp_all add: sem_inv_def)
  from a have "total_in_flight st \<le> nat (concurrent_requests cfg)"
    unfolding total_in_flight_def c by simp
  moreover from c have "\<forall>r \<in> set (finished_runs st). in_flight r = 0" by simp
  ultimately show ?thesis using b by blast
qed

theorem in_flight_never_exceeds_cap_witness:
  "run_events default_scraper_config
       [NextSite, Acquire 0, Acquire 1, Release 0, Acquire 2, Release 1, Release 2,
        NextSite, Acquire 5, Acquire 3, Acquire 0, Acquire 1, Acquire 4]
       (initial_run [3, 7])
     = Some \<lparr>finished_runs = [\<lparr>sem_value = 0, phases = []\<rparr>, \<lparr>sem_value = 5, phases = [Done, Done, Done]\<rparr>],
             current_run = \<lparr>sem_value = 0,
                             phases = [InFlight, InFlight, Pending, InFlight, InFlight, InFlight, Pending]\<rparr>,
             sites_to_do = []\<rparr>
   \<and> total_in_flight
        \<lparr>finished_runs = [\<lparr>sem_value = 0, phases = []\<rparr>, \<lparr>sem_value = 5, phases = [Done, Done, Done]\<rparr>],
         current_run = \<lparr>sem_value = 0,
                         phases = [InFlight, InFlight, Pending, InFlight, InFlight, InFlight, Pending]\<rparr>,
         sites_to_do = []\<rparr> = 5
   \<and> nat (concurrent_requests default_scraper_config) = 5
   \<and> run_events default_scraper_config
       [NextSite, Acquire 0, Acquire 1, Release 0, Acquire 2, Release 1, Release 2,
        NextSite, Acquire 5, Acquire 3, Acquire 0, Acquire 1, Acquire 4, Acquire 2]
       (initial_run [3, 7]) = None"
proof -
  let ?evs = "[NextSite, Acquire 0, Acquire 1, Release 0, Acquire 2, Release 1, Release 2,
        NextSite, Acquire 5, Acquire 3, Acquire 0, Acquire 1, Acquire 4]"
  let ?st = "\<lparr>finished_runs = [\<lparr>sem_value = 0, phases = []\<rparr>, \<lparr>sem_value = 5, phases = [Done, Done, Done]\<rparr>],
             current_run = \<lparr>sem_value = 0,
                             phases = [InFlight, InFlight, Pending, InFlight, InFlight, InFlight, Pending]\<rparr>,
             sites_to_do = []\<rparr>"
  have run: "run_events default_scraper_config ?evs (initial_run [3, 7]) = Some ?st"
    by code_simp
  have cap: "nat (concurrent_requests default_scraper_config) = 5"
    by (simp add: default_scraper_config_def)
  have refused: "run_events default_scraper_config (?evs @ [Acquire 2]) (initial_run [3, 7]) = None"
    by code_simp
  have five: "5 \<le> total_in_flight ?st" by code_simp
  from in_flight_never_exceeds_cap [OF run] cap have "total_in_flight ?st \<le> 5" by simp
  with five have "total_in_flight ?st = 5" by simp
  with run cap refused show ?thesis by simp
qed

section \<open>The S3 event handler\<close>

lemma process_object_Inr_iff:
  "process_object env bucket key = Inr r \<longleftrightarrow>
     (\<exists>result secure_url fmt bytes width height.
        s3_download_file env bucket key = None
        \<and> cloudinary_upload env key = Inr result
        \<and> getitem result (Key ''secure_url'') = Inr secure_url
        \<and> getitem result (Key ''format'') = Inr fmt
        \<and> getitem result (Key ''bytes'') = Inr bytes
        \<and> getitem result (Key ''width'') = Inr width
        \<and> getitem result (Key ''height'') = Inr height
        \<and> table_put_item env
             (PDict [(''imageId'', key), (''cloudinaryUrl'', secure_url),
                     (''metadata'',
                        PDict [(''format'', fmt), (''size'', bytes),
                               (''dimensions'', PDict [(''width'', width), (''height'', height)])])])
            = None
        \<and> r = \<lparr>statusCode = 200,
                 body = PDict [(''message'', PStr ''Image processed successfully''),
                               (''imageUrl'', secure_url)]\<rparr>)"
  by (auto simp: process_object_def split: option.splits sum.splits)

text \<open>
  The exceptions of the \<^verbatim>\<open>try\<close> block, by the call that raises: the download, the
  upload, the first of the five lookups in the upload's result that fails (in the order in
  which the source evaluates them), or the write of the item.
\<close>

lemma process_object_Inl_iff:
  "process_object env bucket key = Inl e \<longleftrightarrow>
     (s3_download_file env bucket key = Some e
      \<or> (s3_download_file env bucket key = None \<and> cloudinary_upload env key = Inl e)
      \<or> (\<exists>result.
            s3_download_file env bucket key = None
            \<and> cloudinary_upload env key = Inr result
            \<and> find isl (map (\<lambda>k. getitem result (Key k))
                           [''secure_url'', ''format'', ''bytes'', ''width'', ''height''])
                = Some (Inl e))
      \<or> (\<exists>result secure_url fmt bytes width height.
            s3_download_file env bucket key = None
            \<and> cloudinary_upload env key = Inr result
            \<and> getitem result (Key ''secure_url'') = Inr secure_url
            \<and> getitem result (Key ''format'') = Inr fmt
            \<and> getitem result (Key ''bytes'') = Inr bytes
            \<and> getitem result (Key ''width'') = Inr width
            \<and> getitem result (Key ''height'') = Inr height
            \<and> table_put_item env
                 (PDict [(''imageId'', key), (''cloudinaryUrl'', secure_url),
                         (''metadata'',
                            PDict [(''format'', fmt), (''size'', bytes),
                                   (''dimensions'', PDict [(''width'', width), (''height'', height)])])])
                = Some e))"
proof (cases "s3_download_file env bucket key")
  case (Some e')
  then show ?thesis by (simp add: process_object_def)
next
  case None
  show ?thesis
  proof (cases "cloudinary_upload env key")
    case (Inl e')
    with None show ?thesis by (simp add: process_object_def)
  next
    case (Inr result)
    note up = None Inr
    show ?thesis
    proof (cases "getitem result (Key ''secure_url'')")
      case (Inl e1)
      with up show ?thesis by (simp add: process_object_def)
    next
      case f1: (Inr secure_url)
      show ?thesis
      proof (cases "getitem result (Key ''format'')")
        case (Inl e2)
        with up f1 show ?thesis by (simp add: process_object_def)
      next
        case f2: (Inr fmt)
        show ?thesis
        proof (cases "getitem result (Key ''bytes'')")
          case (Inl e3)
          with up f1 f2 show ?thesis by (simp add: process_object_def)
        next
          case f3: (Inr bytes)
          show ?thesis
          proof (cases "getitem result (Key ''width'')")
            case (Inl e4)
            with up f1 f2 f3 show ?thesis by (simp add: process_object_def)
          next
            case f4: (Inr width)
            show ?thesis
            proof (cases "getitem result (Key ''height'')")
              case (Inl e5)
              with up f1 f2 f3 f4 show ?thesis by (simp add: process_object_def)
            next
              case f5: (Inr height)
              with up f1 f2 f3 f4 show ?thesis
                by (simp add: process_object_def split: option.splits)
            qed
          qed
        qed
      qed
    qed
  qed
qed

lemma handler_structure_present:
  assumes "getpath event bucket_path = Inr bucket" and "getpath event key_path = Inr key"
  shows "handler env event =
           Inr (case process_object env bucket key of
                  Inr r \<Rightarrow> r
                | Inl e \<Rightarrow> \<lparr>statusCode = 500, body = PDict [(''error'', PStr (exn_str e))]\<rparr>)"
  using assms by (simp add: handler_def split: sum.splits)

lemma handler_missing_records:
  "map_of kvs ''Records'' = None \<Longrightarrow> handler env (PDict kvs) = Inl (KeyError (Key ''Records''))"
  by (simp add: handler_def bucket_path_def)

lemma handler_empty_records:
  "map_of kvs ''Records'' = Some (PList []) \<Longrightarrow>
     handler env (PDict kvs) = Inl (IndexError ''list index out of range'')"
  by (simp add: handler_def bucket_path_def)

text \<open>
  Claim C10.  The handler reads the bucket name and the object key from the event before
  its \<^verbatim>\<open>try\<close>.  For an event in which both lookups succeed it never raises, and its
  answer is decided by the services: it answers 200, with the message and the secure URL,
  exactly when the download, the upload, the five lookups in the upload's result and the
  write of the item (with the key, the URL, the format, the size and the dimensions) all
  succeed; otherwise it answers 500 with the string of the exception that was raised by
  the download, by the upload, by the first failing lookup in the upload's result, or by
  the write of the item.  For an event in which a lookup fails, the handler raises that
  lookup's exception to its caller: a \<^verbatim>\<open>KeyError\<close> for an event without \<^verbatim>\<open>Records\<close>,
  an \<^verbatim>\<open>IndexError\<close> for an empty list of records.
\<close>

theorem handler_event_lookups_outside_try:
  "(\<forall>bucket key.
      getpath event bucket_path = Inr bucket \<and> getpath event key_path = Inr key \<longrightarrow>
      (\<exists>resp. handler env event = Inr resp
         \<and> ((statusCode resp = 200
               \<and> (\<exists>result secure_url fmt bytes width height.
                     s3_download_file env bucket key = None
                     \<and> cloudinary_upload env key = Inr result
                     \<and> getitem result (Key ''secure_url'') = Inr secure_url
                     \<and> getitem result (Key ''format'') = Inr fmt
                     \<and> getitem result (Key ''bytes'') = Inr bytes
                     \<and> getitem result (Key ''width'') = Inr width
                     \<and> getitem result (Key ''height'') = Inr height
                     \<and> table_put_item env
                          (PDict [(''imageId'', key), (''cloudinaryUrl'', secure_url),
                                  (''metadata'',
                                     PDict [(''format'', fmt), (''size'', bytes),
                                            (''dimensions'',
                                               PDict [(''width'', width), (''height'', height)])])])
                         = None
                     \<and> body resp = PDict [(''message'', PStr ''Image processed successfully''),
                                           (''imageUrl'', secure_url)]))
             \<or> (statusCode resp = 500
               \<and> (\<exists>e. body resp = PDict [(''error'', PStr (exn_str e))]
                     \<and> (s3_download_file env bucket key = Some e
                        \<or> (s3_download_file env bucket key = None
                            \<and> cloudinary_upload env key = Inl e)
                        \<or> (\<exists>result.
                              s3_download_file env bucket key = None
                              \<and> cloudinary_upload env key = Inr result
                              \<and> find isl (map (\<lambda>k. getitem result (Key k))
                                             [''secure_url'', ''format'', ''bytes'', ''width'',
                                              ''height''])
                                  = Some (Inl e))
                        \<or> (\<exists>result secure_url fmt bytes width height.
                              s3_download_file env bucket key = None
                              \<and> cloudinary_upload env key = Inr result
                              \<and> getitem result (Key ''secure_url'') = Inr secure_url
                              \<and> getitem result (Key ''format'') = Inr fmt
                              \<and> getitem result (Key ''bytes'') = Inr bytes
                              \<and> getitem result (Key ''width'') = Inr width
                              \<and> getitem result (Key ''height'') = Inr height
                              \<and> table_put_item env
                                   (PDict [(''imageId'', key), (''cloudinaryUrl'', secure_url),
                                           (''metadata'',
                                              PDict [(''format'', fmt), (''size'', bytes),
                                                     (''dimensions'',
                                                        PDict [(''width'', width),
                                                               (''height'', height)])])])
                                  = Some e)))))))
   \<and> (\<forall>e. getpath event bucket_path = Inl e \<longrightarrow> handler env event = Inl e)
   \<and> (\<forall>bucket e. getpath event bucket_path = Inr bucket \<and> getpath event key_path = Inl e
         \<longrightarrow> handler env event = Inl e)
   \<and> (\<forall>kvs. event = PDict kvs \<and> map_of kvs ''Records'' = None
         \<longrightarrow> handler env event = Inl (KeyError (Key ''Records'')))
   \<and> (\<forall>kvs. event = PDict kvs \<and> map_of kvs ''Records'' = Some (PList [])
         \<longrightarrow> handler env event = Inl (IndexError ''list index out of range''))"
proof (intro conjI allI impI)
  fix bucket key
  assume a: "getpath event bucket_path = Inr bucket \<and> getpath event key_path = Inr key"
  let ?resp = "case process_object env bucket key of
                  Inr r \<Rightarrow> r
                | Inl e \<Rightarrow> \<lparr>statusCode = 500, body = PDict [(''error'', PStr (exn_str e))]\<rparr>"
  from a have h: "handler env event = Inr ?resp"
    using handler_structure_present by blast
  show "\<exists>resp. handler env event = Inr resp
         \<and> ((statusCode resp = 200
               \<and> (\<exists>result secure_url fmt bytes width height.
                     s3_download_file env bucket key = None
                     \<and> cloudinary_upload env key = Inr result
                     \<and> getitem result (Key ''secure_url'') = Inr secure_url
                     \<and> getitem result (Key ''format'') = Inr fmt
                     \<and> getitem result (Key ''bytes'') = Inr bytes
                     \<and> getitem result (Key ''width'') = Inr width
                     \<and> getitem result (Key ''height'') = Inr height
                     \<and> table_put_item env
                          (PDict [(''imageId'', key), (''cloudinaryUrl'', secure_url),
                                  (''metadata'',
                                     PDict [(''format'', fmt), (''size'', bytes),
                                            (''dimensions'',
                                               PDict [(''width'', width), (''height'', height)])])])
                         = None
                     \<and> body resp = PDict [(''message'', PStr ''Image processed successfully''),
                                           (''imageUrl'', secure_url)]))
             \<or> (statusCode resp = 500
               \<and> (\<exists>e. body resp = PDict [(''error'', PStr (exn_str e))]
                     \<and> (s3_download_file env bucket key = Some e
                        \<or> (s3_download_file env bucket key = None
                            \<and> cloudinary_upload env key = Inl e)
                        \<or> (\<exists>result.
                              s3_download_file env bucket key = None
                              \<and> cloudinary_upload env key = Inr result
                              \<and> find isl (map (\<lambda>k. getitem result (Key k))
                                             [''secure_url'', ''format'', ''bytes'', ''width'',
                                              ''height''])
                                  = Some (Inl e))
                        \<or> (\<exists>result secure_url fmt bytes width height.
                              s3_download_file env bucket key = None
                              \<and> cloudinary_upload env key = Inr result
                              \<and> getitem result (Key ''secure_url'') = Inr secure_url
                              \<and> getitem result (Key ''format'') = Inr fmt
                              \<and> getitem result (Key ''bytes'') = Inr bytes
                              \<and> getitem result (Key ''width'') = Inr width
                              \<and> getitem result (Key ''height'') = Inr height
                              \<and> table_put_item env
                                   (PDict [(''imageId'', key), (''cloudinaryUrl'', secure_url),
                                           (''metadata'',
                                              PDict [(''format'', fmt), (''size'', bytes),
                                                     (''dimensions'',
                                                        PDict [(''width'', width),
                                                               (''height'', height)])])])
                                  = Some e)))))"
  proof (cases "process_object env bucket key")
    case (Inr r)
    from Inr h have hr: "handler env event = Inr r" by simp
    from Inr [unfolded process_object_Inr_iff]
    obtain result secure_url fmt bytes width height where
      "s3_download_file env bucket key = None"
      "cloudinary_upload env key = Inr result"
      "getitem result (Key ''secure_url'') = Inr secure_url"
      "getitem result (Key ''format'') = Inr fmt"
      "getitem result (Key ''bytes'') = Inr bytes"
      "getitem result (Key ''width'') = Inr width"
      "getitem result (Key ''height'') = Inr height"
      "table_put_item env
             (PDict [(''imageId'', key), (''cloudinaryUrl'', secure_url),
                     (''metadata'',
                        PDict [(''format'', fmt), (''size'', bytes),
                               (''dimensions'', PDict [(''width'', width), (''height'', height)])])])
            = None"
      "r = \<lparr>statusCode = 200,
                 body = PDict [(''message'', PStr ''Image processed successfully''),
                               (''imageUrl'', secure_url)]\<rparr>"
      by blast
    then have "statusCode r = 200
               \<and> (\<exists>result secure_url fmt bytes width height.
                     s3_download_file env bucket key = None
                     \<and> cloudinary_upload env key = Inr result
                     \<and> getitem result (Key ''secure_url'') = Inr secure_url
                     \<and> getitem result (Key ''format'') = Inr fmt
                     \<and> getitem result (Key ''bytes'') = Inr bytes
                     \<and> getitem result (Key ''width'') = Inr width
                     \<and> getitem result (Key ''height'') = Inr height
                     \<and> table_put_item env
                          (PDict [(''imageId'', key), (''cloudinaryUrl'', secure_url),
                                  (''metadata'',
                                     PDict [(''format'', fmt), (''size'', bytes),
                                            (''dimensions'',
                                               PDict [(''width'', width), (''height'', height)])])])
                         = None
                     \<and> body r = PDict [(''message'', PStr ''Image processed successfully''),
                                        (''imageUrl'', secure_url)])"
      by simp
    with hr show ?thesis by blast
  next
    case (Inl e)
    let ?r = "\<lparr>statusCode = 500, body = PDict [(''error'', PStr (exn_str e))]\<rparr>"
    from Inl h have hr: "handler env event = Inr ?r" by simp
    have s: "statusCode ?r = 500" and b: "body ?r = PDict [(''error'', PStr (exn_str e))]"
      by simp_all
    from Inl [unfolded process_object_Inl_iff] s b hr
    show ?thesis by blast
  qed
next
  fix e assume "getpath event bucket_path = Inl e"
  then show "handler env event = Inl e" by (simp add: handler_def)
next
  fix bucket e
  assume "getpath event bucket_path = Inr bucket \<and> getpath event key_path = Inl e"
  then show "handler env event = Inl e" by (simp add: handler_def)
next
  fix kvs assume "event = PDict kvs \<and> map_of kvs ''Records'' = None"
  then show "handler env event = Inl (KeyError (Key ''Records''))"
    by (simp add: handler_missing_records)
next
  fix kvs assume "event = PDict kvs \<and> map_of kvs ''Records'' = Some (PList [])"
  then show "handler env event = Inl (IndexError ''list index out of range'')"
    by (simp add: handler_empty_records)
qed

theorem handler_event_lookups_outside_try_witness:
  "getpath (example_event ''jewelry-images-input-bucket'' ''rings/a_1000.jpg'') bucket_path
     = Inr (PStr ''jewelry-images-input-bucket'')
   \<and> getpath (example_event ''jewelry-images-input-bucket'' ''rings/a_1000.jpg'') key_path
     = Inr (PStr ''rings/a_1000.jpg'')
   \<and> handler (example_aws_env (Inr example_upload_result) None)
        (example_event ''jewelry-images-input-bucket'' ''rings/a_1000.jpg'')
     = Inr \<lparr>statusCode = 200,
            body = PDict [(''message'', PStr ''Image processed successfully''),
                          (''imageUrl'', PStr ''https://res.example/abc.jpg'')]\<rparr>
   \<and> handler (example_aws_env (Inr example_upload_result) None)
        (example_event ''jewelry-images-input-bucket'' ''rings/zzz.jpg'')
     = Inr \<lparr>statusCode = 500, body = PDict [(''error'', PStr ''Not Found'')]\<rparr>
   \<and> handler (example_aws_env (Inl (ValueError ''Invalid image file'')) None)
        (example_event ''jewelry-images-input-bucket'' ''rings/a_1000.jpg'')
     = Inr \<lparr>statusCode = 500, body = PDict [(''error'', PStr ''Invalid image file'')]\<rparr>
   \<and> handler (example_aws_env
                 (Inr (PDict [(''secure_url'', PStr ''https://res.example/abc.jpg''),
                              (''format'', PStr ''jpg''), (''width'', PInt 600)]))
                 None)
        (example_event ''jewelry-images-input-bucket'' ''rings/a_1000.jpg'')
     = Inr \<lparr>statusCode = 500, body = PDict [(''error'', PStr (quoted ''bytes''))]\<rparr>
   \<and> handler (example_aws_env (Inr example_upload_result)
                 (Some (ClientError ''Requested resource not found'')))
        (example_event ''jewelry-images-input-bucket'' ''rings/a_1000.jpg'')
     = Inr \<lparr>statusCode = 500, body = PDict [(''error'', PStr ''Requested resource not found'')]\<rparr>
   \<and> handler (example_aws_env (Inr example_upload_result) None) (PDict [(''Records'', PList [])])
     = Inl (IndexError ''list index out of range'')
   \<and> handler (example_aws_env (Inr example_upload_result) None) (PDict [])
     = Inl (KeyError (Key ''Records''))"
proof -
  let ?ev = "example_event ''jewelry-images-input-bucket'' ''rings/a_1000.jpg''"
  let ?ev2 = "example_event ''jewelry-images-input-bucket'' ''rings/zzz.jpg''"
  let ?short = "PDict [(''secure_url'', PStr ''https://res.example/abc.jpg''),
                       (''format'', PStr ''jpg''), (''width'', PInt 600)]"
  have b: "getpath ?ev bucket_path = Inr (PStr ''jewelry-images-input-bucket'')" by code_simp
  have k: "getpath ?ev key_path = Inr (PStr ''rings/a_1000.jpg'')" by code_simp
  have b2: "getpath ?ev2 bucket_path = Inr (PStr ''jewelry-images-input-bucket'')" by code_simp
  have k2: "getpath ?ev2 key_path = Inr (PStr ''rings/zzz.jpg'')" by code_simp
  have eq: "r = \<lparr>statusCode = c, body = d\<rparr>" if "statusCode r = c" and "body r = d"
    for r :: response and c d
    using that by (cases r) simp
  from handler_event_lookups_outside_try [of ?ev "example_aws_env (Inr example_upload_result) None"] b k
  have ok: "handler (example_aws_env (Inr example_upload_result) None) ?ev
     = Inr \<lparr>statusCode = 200,
            body = PDict [(''message'', PStr ''Image processed successfully''),
                          (''imageUrl'', PStr ''https://res.example/abc.jpg'')]\<rparr>"
    by (auto simp: example_aws_env_def example_upload_result_def intro: eq)
  from handler_event_lookups_outside_try [of ?ev2 "example_aws_env (Inr example_upload_result) None"] b2 k2
  have download: "handler (example_aws_env (Inr example_upload_result) None) ?ev2
     = Inr \<lparr>statusCode = 500, body = PDict [(''error'', PStr ''Not Found'')]\<rparr>"
    by (auto simp: example_aws_env_def example_upload_result_def intro: eq)
  from handler_event_lookups_outside_try
         [of ?ev "example_aws_env (Inl (ValueError ''Invalid image file'')) None"] b k
  have upload: "handler (example_aws_env (Inl (ValueError ''Invalid image file'')) None) ?ev
     = Inr \<lparr>statusCode = 500, body = PDict [(''error'', PStr ''Invalid image file'')]\<rparr>"
    by (auto simp: example_aws_env_def intro: eq)
  from handler_event_lookups_outside_try [of ?ev "example_aws_env (Inr ?short) None"] b k
  have field: "handler (example_aws_env (Inr ?short) None) ?ev
     = Inr \<lparr>statusCode = 500, body = PDict [(''error'', PStr (quoted ''bytes''))]\<rparr>"
    by (auto simp: example_aws_env_def intro: eq)
  from handler_event_lookups_outside_try
         [of ?ev "example_aws_env (Inr example_upload_result)
                    (Some (ClientError ''Requested resource not found''))"] b k
  have put: "handler (example_aws_env (Inr example_upload_result)
                        (Some (ClientError ''Requested resource not found''))) ?ev
     = Inr \<lparr>statusCode = 500, body = PDict [(''error'', PStr ''Requested resource not found'')]\<rparr>"
    by (auto simp: example_aws_env_def example_upload_result_def intro: eq)
  from handler_event_lookups_outside_try
         [of "PDict [(''Records'', PList [])]" "example_aws_env (Inr example_upload_result) None"]
  have empty: "handler (example_aws_env (Inr example_upload_result) None) (PDict [(''Records'', PList [])])
     = Inl (IndexError ''list index out of range'')"
    by simp
  from handler_event_lookups_outside_try
         [of "PDict []" "example_aws_env (Inr example_upload_result) None"]
  have missing: "handler (example_aws_env (Inr example_upload_result) None) (PDict [])
                   = Inl (KeyError (Key ''Records''))"
    by simp
  from b k ok download upload field put empty missing show ?thesis by blast
qed

section \<open>The webhook handler\<close>

lemma hex_digit_ascii: "(of_char (hex_digit n) :: nat) < 128"
proof -
  have "\<forall>i < 16. (of_char (''0123456789abcdef'' ! i) :: nat) < 128"
    by (simp add: All_less_Suc numeral_eq_Suc)
  then show ?thesis by (simp add: hex_digit_def)
qed

lemma is_ascii_hexdigest: "is_ascii (hexdigest bs)"
  by (induction bs) (simp_all add: is_ascii_def hexdigest_def hex_byte_def hex_digit_ascii)

lemma length_state_bytes: "length (state_bytes s) = 32"
  by (induction s rule: state_bytes.induct) (simp add: word_bytes_def)

lemma length_hexdigest: "length (hexdigest bs) = 2 * length bs"
  by (induction bs) (simp_all add: hexdigest_def hex_byte_def)

lemma length_hmac_sha256: "length (hmac_sha256 key msg) = 32"
  by (simp add: hmac_sha256_def sha256_def length_state_bytes Let_def)

lemma length_computed_signature: "length (computed_signature secret data) = 64"
  by (simp add: computed_signature_def length_hexdigest length_hmac_sha256)

lemma computed_signature_nonempty: "computed_signature secret data \<noteq> []"
  using length_computed_signature [of secret data] by auto

lemma is_ascii_computed_signature: "is_ascii (computed_signature secret data)"
  by (simp add: computed_signature_def is_ascii_hexdigest)

lemma verify_signature_eq:
  "verify_signature secret data sig =
     (if is_ascii sig then Inr (sig = computed_signature secret data)
      else Inl (TypeError ''comparing strings with non-ASCII characters is not supported''))"
  by (auto simp: verify_signature_def compare_digest_def is_ascii_computed_signature)

text \<open>
  Where the handler does validate: for a payload that is a JSON object and a signature header
  without a character outside ASCII, the handler acknowledges with 200 exactly when the
  header is the hex digest it computes, and answers 400 otherwise; a missing or empty
  header is answered with 400 whatever the payload is.
\<close>

lemma handle_webhook_object_payload:
  assumes "is_ascii sig"
  shows "handle_webhook secret (Some sig) (PDict kvs) =
           (if sig = computed_signature secret (PDict kvs)
            then Inr (PDict [(''status'', PStr ''success'')], 200)
            else Inr (PDict [(''error'', PStr ''Invalid signature'')], 400))"
  using assms computed_signature_nonempty [of secret "PDict kvs"]
  by (auto simp: handle_webhook_def verify_signature_eq)

lemma handle_webhook_missing_header:
  "handle_webhook secret None data = Inr (PDict [(''error'', PStr ''Invalid signature'')], 400)"
  "handle_webhook secret (Some []) data = Inr (PDict [(''error'', PStr ''Invalid signature'')], 400)"
  by (simp_all add: handle_webhook_def)

lemma handle_webhook_ack_only_if:
  "handle_webhook secret signature data = Inr (b, 200) \<Longrightarrow>
     signature = Some (computed_signature secret data)"
  by (auto simp: handle_webhook_def verify_signature_eq split: option.splits if_splits sum.splits)

text \<open>
  Claim C3 fails in the code on two inputs.  A signature header with a character outside
  ASCII is not answered with 400: the comparison raises.  A payload that is not a JSON
  object, sent with its correct signature, is not acknowledged with 200: the lookup of the
  event type raises.
\<close>

theorem handle_webhook_raises_instead_of_answering:
  "handle_webhook WEBHOOK_SECRET (Some [CHR 0xE9])
       (PDict [(''event'', PStr ''upload''), (''public_id'', PStr ''abc'')])
     = Inl (TypeError ''comparing strings with non-ASCII characters is not supported'')
   \<and> [CHR 0xE9] \<noteq> computed_signature WEBHOOK_SECRET
                       (PDict [(''event'', PStr ''upload''), (''public_id'', PStr ''abc'')])
   \<and> handle_webhook WEBHOOK_SECRET (Some (computed_signature WEBHOOK_SECRET (PList []))) (PList [])
     = Inl (AttributeError (quoted ''list'' @ '' object has no attribute '' @ quoted ''get''))"
proof -
  have na: "\<not> is_ascii [CHR 0xE9]" by (simp add: is_ascii_def)
  then have one: "handle_webhook WEBHOOK_SECRET (Some [CHR 0xE9])
       (PDict [(''event'', PStr ''upload''), (''public_id'', PStr ''abc'')])
     = Inl (TypeError ''comparing strings with non-ASCII characters is not supported'')"
    by (simp add: handle_webhook_def verify_signature_eq)
  have two: "[CHR 0xE9] \<noteq> computed_signature WEBHOOK_SECRET
                       (PDict [(''event'', PStr ''upload''), (''public_id'', PStr ''abc'')])"
    using na is_ascii_computed_signature by metis
  have three: "handle_webhook WEBHOOK_SECRET (Some (computed_signature WEBHOOK_SECRET (PList []))) (PList [])
     = Inl (AttributeError (quoted ''list'' @ '' object has no attribute '' @ quoted ''get''))"
    by (simp add: handle_webhook_def verify_signature_eq is_ascii_computed_signature
          computed_signature_nonempty)
  from one two three show ?thesis by blast
qed

text \<open>
  The example of the specification: the payload \<^verbatim>\<open>{"event":"upload","public_id":"abc"}\<close>
  under the default secret.  The digest is the one Python computes; with it the handler
  acknowledges, and with its last character changed it answers 400.
\<close>

lemma computed_signature_upload_abc:
  "computed_signature WEBHOOK_SECRET (PDict [(''public_id'', PStr ''abc''), (''event'', PStr ''upload'')])
     = ''444680461b366e9bd83ffc43fb9673e511492e4d9869f61301ddfb037115d44f''"
  by code_simp

lemma handle_webhook_upload_abc:
  "handle_webhook WEBHOOK_SECRET
       (Some ''444680461b366e9bd83ffc43fb9673e511492e4d9869f61301ddfb037115d44f'')
       (PDict [(''public_id'', PStr ''abc''), (''event'', PStr ''upload'')])
     = Inr (PDict [(''status'', PStr ''success'')], 200)
   \<and> handle_webhook WEBHOOK_SECRET
       (Some ''444680461b366e9bd83ffc43fb9673e511492e4d9869f61301ddfb037115d44e'')
       (PDict [(''public_id'', PStr ''abc''), (''event'', PStr ''upload'')])
     = Inr (PDict [(''error'', PStr ''Invalid signature'')], 400)"
proof -
  have a: "is_ascii ''444680461b366e9bd83ffc43fb9673e511492e4d9869f61301ddfb037115d44f''"
    and b: "is_ascii ''444680461b366e9bd83ffc43fb9673e511492e4d9869f61301ddfb037115d44e''"
    by (simp_all add: is_ascii_def)
  show ?thesis
    by (simp add: handle_webhook_object_payload [OF a] handle_webhook_object_payload [OF b]
          computed_signature_upload_abc)
qed

end
